theory Spec2Isabelle
  imports Main
begin

section \<open>Exceptions, provider calls and the log of a run\<close>

text \<open>
  Every function of the repository talks to the cloud provider through boto3 clients and
  reports on the console. A run is modelled by what it returns or raises together with
  the chronological list of what it did: the provider calls it issued, the lines it
  printed and the pauses on \<open>input()\<close>.

  An exception is either botocore's \<open>ClientError\<close>, with the value of
  \<open>e.response['Error']['Code']\<close> and the text \<open>str(e)\<close>, or any other
  \<open>Exception\<close> with its text.
\<close>

datatype exn = ClientError string string | Exception string

fun str_exn :: "exn \<Rightarrow> string" where
  "str_exn (ClientError code text) = text"
| "str_exn (Exception text) = text"

text \<open>JSON values: the Lambda payloads, the response bodies and the bucket policy.\<close>

datatype json =
    JNull
  | JBool bool
  | JInt int
  | JStr string
  | JList "json list"
  | JDict "(string \<times> json) list"

text \<open>Python's truth value of a JSON value, as tested by \<open>if not bucket_name\<close>.\<close>

fun truthy :: "json \<Rightarrow> bool" where
  "truthy JNull = False"
| "truthy (JBool b) = b"
| "truthy (JInt n) = (n \<noteq> 0)"
| "truthy (JStr s) = (s \<noteq> [])"
| "truthy (JList xs) = (xs \<noteq> [])"
| "truthy (JDict kvs) = (kvs \<noteq> [])"

text \<open>An advanced event selector of a trail: its name and its field selectors
  (\<open>Field\<close>, \<open>Equals\<close>).\<close>

record selector =
  selector_Name :: string
  FieldSelectors :: "(string \<times> string list) list"

text \<open>A CSV document as the rows given to \<open>csv.DictWriter\<close>, header first; each row
  is the list of its fields in the order of \<open>fieldnames\<close>.\<close>

type_synonym csv = "string list list"

datatype call =
    GetCallerIdentity
  | HeadBucket string
  | CreateBucket string "json option"
  | PutBucketPolicy string json
  | DescribeTrails
  | CreateTrail string string string bool bool
  | PutEventSelectors string "selector list"
  | StartLogging string
  | ListInstances
  | ListUsers string "string option"
  | PutObject string string csv
  | UploadFile csv string string
  | ListTargetsByRule string
  | RemoveTargets string "string list"
  | DeleteRule string
  | DeleteFunction string
  | DeleteRolePolicy string string
  | DeleteRole string
  | DeleteTrail string
  | ListObjectsV2 string
  | ListObjectVersions string
  | DeleteObjects string "(string \<times> string option) list"
  | DeleteBucket string

datatype event = Call call | Print string | Input

type_synonym 'a run = "(exn + 'a) \<times> event list"

definition ret :: "'a \<Rightarrow> 'a run" where
  "ret a = (Inr a, [])"

definition raise :: "exn \<Rightarrow> 'a run" where
  "raise e = (Inl e, [])"

definition emit :: "event \<Rightarrow> unit run" where
  "emit ev = (Inr (), [ev])"

text \<open>\<open>invoke c r\<close>: the call \<open>c\<close> is issued and the provider answers \<open>r\<close>.\<close>

definition invoke :: "call \<Rightarrow> exn + 'a \<Rightarrow> 'a run" where
  "invoke c r = (r, [Call c])"

text \<open>Sequencing: an exception of the first part skips the second.\<close>

definition and_then :: "'a run \<Rightarrow> ('a \<Rightarrow> 'b run) \<Rightarrow> 'b run" where
  "and_then m f =
     (case m of
        (Inl e, l) \<Rightarrow> (Inl e, l)
      | (Inr a, l) \<Rightarrow> (case f a of (r, l') \<Rightarrow> (r, l @ l')))"

text \<open>\<open>try: m except ClientError as e: h\<close>; any other exception passes through.\<close>

definition except_ClientError :: "'a run \<Rightarrow> (string \<Rightarrow> string \<Rightarrow> 'a run) \<Rightarrow> 'a run" where
  "except_ClientError m h =
     (case m of
        (Inl (ClientError code text), l) \<Rightarrow> (case h code text of (r, l') \<Rightarrow> (r, l @ l'))
      | (Inl (Exception text), l) \<Rightarrow> (Inl (Exception text), l)
      | (Inr a, l) \<Rightarrow> (Inr a, l))"

text \<open>\<open>try: m except Exception as e: h\<close>.\<close>

definition except_Exception :: "'a run \<Rightarrow> (exn \<Rightarrow> 'a run) \<Rightarrow> 'a run" where
  "except_Exception m h =
     (case m of
        (Inl e, l) \<Rightarrow> (case h e of (r, l') \<Rightarrow> (r, l @ l'))
      | (Inr a, l) \<Rightarrow> (Inr a, l))"

text \<open>A \<open>for\<close> loop over a list whose body returns nothing.\<close>

fun for_each :: "'a list \<Rightarrow> ('a \<Rightarrow> unit run) \<Rightarrow> unit run" where
  "for_each [] body = ret ()"
| "for_each (x # xs) body = and_then (body x) (\<lambda>_. for_each xs body)"

text \<open>The provider calls of a log, in order.\<close>

fun calls :: "event list \<Rightarrow> call list" where
  "calls [] = []"
| "calls (Call c # l) = c # calls l"
| "calls (Print s # l) = calls l"
| "calls (Input # l) = calls l"

text \<open>\<open>str(n)\<close> for a length.\<close>

definition digit :: "nat \<Rightarrow> char" where
  "digit d = ''0123456789'' ! d"

function str_nat :: "nat \<Rightarrow> string" where
  "str_nat n = (if n < 10 then [digit n] else str_nat (n div 10) @ [digit (n mod 10)])"
  by pat_completeness auto
termination
  by (relation "measure id") auto

declare str_nat.simps [simp del]

text \<open>
  The text of a JSON value inside an f-string, which is \<open>str\<close> of the value: a string is
  its own text, \<open>None\<close>, \<open>True\<close> and \<open>False\<close> are their names, an integer is written in
  decimal, and a list or a dictionary is written with the \<open>repr\<close> of its members.
\<close>

definition str_int :: "int \<Rightarrow> string" where
  "str_int i = (if i < 0 then CHR ''-'' # str_nat (nat (- i)) else str_nat (nat i))"

text \<open>
  \<open>repr\<close> of a string: between single quotes, or double quotes when the string holds a
  single quote and no double quote; the backslash and the quote in use are escaped, so are
  tab, newline and carriage return, and any other control character is written \<open>\xNN\<close>.
\<close>

definition hex_digit :: "nat \<Rightarrow> char" where
  "hex_digit d = ''0123456789abcdef'' ! d"

definition repr_char :: "char \<Rightarrow> char \<Rightarrow> string" where
  "repr_char quote c =
     (if c = quote \<or> c = CHR 0x5C then [CHR 0x5C, c]
      else if c = CHR 0x09 then [CHR 0x5C, CHR ''t'']
      else if c = CHR 0x0A then [CHR 0x5C, CHR ''n'']
      else if c = CHR 0x0D then [CHR 0x5C, CHR ''r'']
      else if (of_char c :: nat) < 32 \<or> (of_char c :: nat) = 127 then
        [CHR 0x5C, CHR ''x'', hex_digit (of_char c div 16), hex_digit (of_char c mod 16)]
      else [c])"

definition repr_str :: "string \<Rightarrow> string" where
  "repr_str s =
     (let quote = (if CHR 0x27 \<in> set s \<and> CHR 0x22 \<notin> set s then CHR 0x22 else CHR 0x27)
      in quote # concat (map (repr_char quote) s) @ [quote])"

fun str_join :: "string \<Rightarrow> string list \<Rightarrow> string" where
  "str_join sep [] = []"
| "str_join sep [s] = s"
| "str_join sep (s # t # ts) = s @ sep @ str_join sep (t # ts)"

fun py_repr :: "json \<Rightarrow> string" where
  "py_repr JNull = ''None''"
| "py_repr (JBool b) = (if b then ''True'' else ''False'')"
| "py_repr (JInt i) = str_int i"
| "py_repr (JStr s) = repr_str s"
| "py_repr (JList xs) = ''['' @ str_join '', '' (map py_repr xs) @ '']''"
| "py_repr (JDict kvs) =
     ''{'' @ str_join '', '' (map (\<lambda>kv. repr_str (fst kv) @ '': '' @ py_repr (snd kv)) kvs)
       @ ''}''"

text \<open>
  A string is a list of bytes, UTF-8 for a character outside ASCII. Which of those
  characters \<open>repr\<close> escapes is not modelled: the text of a list or dictionary is given
  only when the strings inside are ASCII, and the keys of a dictionary distinct, as they
  are in a Python \<open>dict\<close>.
\<close>

definition ascii :: "string \<Rightarrow> bool" where
  "ascii s = list_all (\<lambda>c. (of_char c :: nat) < 128) s"

fun plain :: "json \<Rightarrow> bool" where
  "plain (JStr s) = ascii s"
| "plain (JList xs) = list_all plain xs"
| "plain (JDict kvs) =
     (distinct (map fst kvs) \<and> list_all (\<lambda>kv. ascii (fst kv) \<and> plain (snd kv)) kvs)"
| "plain v = True"

fun py_str :: "json \<Rightarrow> string option" where
  "py_str (JStr s) = Some s"
| "py_str v = (if plain v then Some (py_repr v) else None)"

section \<open>The provider\<close>

text \<open>
  Response dictionaries are records. A key the source reads by subscript (\<open>e['Value']\<close>)
  is a field; a key it reads with \<open>.get\<close> is an optional field, \<open>None\<close> when the key
  is absent.
\<close>

record trail =
  trail_Name :: "string option"

record describe_trails_response =
  trailList :: "trail list option"

record sso_instance =
  InstanceArn :: string
  IdentityStoreId :: string

record list_instances_response =
  Instances :: "sso_instance list option"

record email =
  Value :: string
  Primary :: "bool option"

record name =
  GivenName :: "string option"
  FamilyName :: "string option"

record user =
  UserId :: "string option"
  UserName :: "string option"
  Emails :: "email list option"
  user_Name :: "name option"

record list_users_response =
  Users :: "user list option"
  NextToken :: "string option"

record target =
  target_Id :: string

record list_targets_response =
  Targets :: "target list option"

record s3_object =
  Key :: string

record objects_page =
  Contents :: "s3_object list option"

record object_version =
  version_Key :: string
  VersionId :: string

record versions_page =
  Versions :: "object_version list option"
  DeleteMarkers :: "object_version list option"

text \<open>
  The answers of the provider. A call is answered by a function of its arguments.
  \<open>list_users\<close> is called in a loop: its answers are the list of the successive
  responses, whatever the arguments. A paginator (\<open>list_objects_v2\<close>,
  \<open>list_object_versions\<close>) yields the pages of its list in order, one request each, and
  stops after the last one or at the first exception.
\<close>

record aws =
  get_caller_identity :: "exn + string option"
  head_bucket :: "string \<Rightarrow> exn + unit"
  create_bucket :: "string \<Rightarrow> json option \<Rightarrow> exn + unit"
  put_bucket_policy :: "string \<Rightarrow> json \<Rightarrow> exn + unit"
  describe_trails :: "exn + describe_trails_response"
  create_trail :: "string \<Rightarrow> string \<Rightarrow> exn + unit"
  put_event_selectors :: "string \<Rightarrow> selector list \<Rightarrow> exn + unit"
  start_logging :: "string \<Rightarrow> exn + unit"
  list_instances :: "exn + list_instances_response"
  list_users :: "(exn + list_users_response) list"
  put_object :: "string \<Rightarrow> string \<Rightarrow> csv \<Rightarrow> exn + unit"
  upload_file :: "csv \<Rightarrow> string \<Rightarrow> string \<Rightarrow> exn + unit"
  list_targets_by_rule :: "string \<Rightarrow> exn + list_targets_response"
  remove_targets :: "string \<Rightarrow> string list \<Rightarrow> exn + unit"
  delete_rule :: "string \<Rightarrow> exn + unit"
  delete_function :: "string \<Rightarrow> exn + unit"
  delete_role_policy :: "string \<Rightarrow> string \<Rightarrow> exn + unit"
  delete_role :: "string \<Rightarrow> exn + unit"
  delete_trail :: "string \<Rightarrow> exn + unit"
  list_objects_v2 :: "string \<Rightarrow> (exn + objects_page) list"
  list_object_versions :: "string \<Rightarrow> (exn + versions_page) list"
  delete_objects :: "string \<Rightarrow> (string \<times> string option) list \<Rightarrow> exn + unit"
  delete_bucket :: "string \<Rightarrow> exn + unit"

section \<open>Bucket provisioner: \<open>QDeveloper3PSetup.create_s3_bucket\<close>\<close>

text \<open>The policy document of \<open>create_s3_bucket\<close> (the argument of \<open>json.dumps\<close>).\<close>

definition bucket_policy :: "string \<Rightarrow> json" where
  "bucket_policy bucket_name =
     JDict [
       (''Version'', JStr ''2012-10-17''),
       (''Statement'', JList [
          JDict [
            (''Sid'', JStr ''AllowAmazonQAccess''),
            (''Effect'', JStr ''Allow''),
            (''Principal'', JDict [(''Service'', JStr ''q.amazonaws.com'')]),
            (''Action'', JList [JStr ''s3:GetObject'', JStr ''s3:ListBucket'', JStr ''s3:PutObject'']),
            (''Resource'', JList [
               JStr (''arn:aws:s3:::'' @ bucket_name),
               JStr (''arn:aws:s3:::'' @ bucket_name @ ''/*'')])],
          JDict [
            (''Sid'', JStr ''AWSCloudTrailAclCheck''),
            (''Effect'', JStr ''Allow''),
            (''Principal'', JDict [(''Service'', JStr ''cloudtrail.amazonaws.com'')]),
            (''Action'', JStr ''s3:GetBucketAcl''),
            (''Resource'', JStr (''arn:aws:s3:::'' @ bucket_name))],
          JDict [
            (''Sid'', JStr ''AWSCloudTrailWrite''),
            (''Effect'', JStr ''Allow''),
            (''Principal'', JDict [(''Service'', JStr ''cloudtrail.amazonaws.com'')]),
            (''Action'', JStr ''s3:PutObject''),
            (''Resource'', JStr (''arn:aws:s3:::'' @ bucket_name @ ''/cloudtrail/*'')),
            (''Condition'', JDict [
               (''StringEquals'', JDict [
                  (''s3:x-amz-acl'', JStr ''bucket-owner-full-control'')])])]])]"

text \<open>
  \<open>create_s3_bucket\<close> is the same in \<open>setup_q_developer_3p_metrcis.py\<close> and in
  \<open>q_developer_3p_metrics_setup_lambda.py\<close>. \<open>self.region\<close> is the value the
  constructor was given: a string from the command line, any JSON value from a Lambda
  payload. It is compared with \<open>'us-east-1'\<close> and passed on as \<open>LocationConstraint\<close>.
\<close>

definition create_s3_bucket :: "aws \<Rightarrow> string \<Rightarrow> json \<Rightarrow> bool run" where
  "create_s3_bucket env bucket_name region =
     except_ClientError
       (and_then
          (except_ClientError
             (and_then (invoke (HeadBucket bucket_name) (head_bucket env bucket_name)) (\<lambda>_.
              emit (Print (''Bucket '' @ bucket_name @ '' already exists''))))
             (\<lambda>code text.
                if code = ''404'' then
                  and_then
                    (if region = JStr ''us-east-1'' then
                       invoke (CreateBucket bucket_name None)
                         (create_bucket env bucket_name None)
                     else
                       invoke (CreateBucket bucket_name (Some region))
                         (create_bucket env bucket_name (Some region))) (\<lambda>_.
                  emit (Print (''Created bucket: '' @ bucket_name)))
                else raise (ClientError code text))) (\<lambda>_.
        and_then
          (invoke (PutBucketPolicy bucket_name (bucket_policy bucket_name))
             (put_bucket_policy env bucket_name (bucket_policy bucket_name))) (\<lambda>_.
        and_then
          (emit (Print (''Updated bucket policy for '' @ bucket_name
             @ '' with Amazon Q and CloudTrail permissions''))) (\<lambda>_.
        ret True))))
       (\<lambda>code text.
          and_then (emit (Print (''Error creating S3 bucket: '' @ text))) (\<lambda>_.
          ret False))"

section \<open>Trail provisioner: \<open>QDeveloper3PSetup.setup_cloudtrail\<close>\<close>

definition advanced_event_selectors :: "selector list" where
  "advanced_event_selectors =
     [\<lparr>selector_Name = ''Log CodeWhisperer events'',
       FieldSelectors =
         [(''eventCategory'', [''Data'']),
          (''resources.type'', [''AWS::CodeWhisperer::Profile''])]\<rparr>,
      \<lparr>selector_Name = ''Log Q Developer Integration events'',
       FieldSelectors =
         [(''eventCategory'', [''Data'']),
          (''resources.type'', [''AWS::QDeveloper::Integration''])]\<rparr>,
      \<lparr>selector_Name = ''Log CodeWhisperer Customization events'',
       FieldSelectors =
         [(''eventCategory'', [''Data'']),
          (''resources.type'', [''AWS::CodeWhisperer::Customization''])]\<rparr>]"

text \<open>
  \<open>setup_cloudtrail\<close> is the same in both setup modules. \<open>run_setup\<close> calls it with
  the default \<open>trail_name\<close>.
\<close>

definition default_trail_name :: string where
  "default_trail_name = ''QDeveloper3PTrail''"

definition setup_cloudtrail :: "aws \<Rightarrow> string \<Rightarrow> string \<Rightarrow> bool run" where
  "setup_cloudtrail env bucket_name trail_name =
     except_ClientError
       (and_then (invoke DescribeTrails (describe_trails env)) (\<lambda>trails.
        let trail_exists =
              list_ex (\<lambda>trail. trail_Name trail = Some trail_name)
                (case trailList trails of None \<Rightarrow> [] | Some ts \<Rightarrow> ts)
        in
        and_then
          (if \<not> trail_exists then
             and_then
               (invoke (CreateTrail trail_name bucket_name ''cloudtrail'' True True)
                  (create_trail env trail_name bucket_name)) (\<lambda>_.
             emit (Print (''Created CloudTrail trail: '' @ trail_name)))
           else
             emit (Print (''CloudTrail trail '' @ trail_name @ '' already exists''))) (\<lambda>_.
        and_then
          (invoke (PutEventSelectors trail_name advanced_event_selectors)
             (put_event_selectors env trail_name advanced_event_selectors)) (\<lambda>_.
        and_then
          (emit (Print (''Configured data events for CloudTrail trail: '' @ trail_name))) (\<lambda>_.
        and_then (invoke (StartLogging trail_name) (start_logging env trail_name)) (\<lambda>_.
        and_then
          (emit (Print (''Started logging for CloudTrail trail: '' @ trail_name))) (\<lambda>_.
        ret True)))))))
       (\<lambda>code text.
          and_then (emit (Print (''Error setting up CloudTrail: '' @ text))) (\<lambda>_.
          ret False))"

section \<open>Directory exporter\<close>

text \<open>
  The pagination loop, the same in \<open>IAMIdentityCenterUserExtractor.extract_users\<close> and
  in both \<open>export_identity_center_users\<close>. A token is followed when it is truthy: present
  and not the empty string.

  The loop ends only when the provider answers with a response without such a token, or
  with an exception. The answers are consumed in order; when they run out before the loop
  has ended the run is not determined and the result is \<open>None\<close>.
\<close>

type_synonym 'a prog = "'a run option"

definition token_truthy :: "string option \<Rightarrow> bool" where
  "token_truthy t = (case t of None \<Rightarrow> False | Some s \<Rightarrow> s \<noteq> [])"

fun list_all_users ::
  "(exn + list_users_response) list \<Rightarrow> string \<Rightarrow> string option \<Rightarrow> user list \<Rightarrow> user list prog"
where
  "list_all_users [] identity_store_id next_token users = None"
| "list_all_users (answer # answers) identity_store_id next_token users =
     (let request =
            ListUsers identity_store_id (if token_truthy next_token then next_token else None)
      in
      case answer of
        Inl e \<Rightarrow> Some (invoke request (Inl e))
      | Inr response \<Rightarrow>
          (let users' = users @ (case Users response of None \<Rightarrow> [] | Some us \<Rightarrow> us);
               next_token' = NextToken response
           in
           if \<not> token_truthy next_token' then Some (invoke request (Inr users'))
           else
             map_option (\<lambda>rest. and_then (invoke request (Inr ())) (\<lambda>_. rest))
               (list_all_users answers identity_store_id next_token' users')))"

text \<open>Sequencing of runs that may be undetermined.\<close>

definition and_then_opt :: "'a prog \<Rightarrow> ('a \<Rightarrow> 'b prog) \<Rightarrow> 'b prog" where
  "and_then_opt m f =
     (case m of
        None \<Rightarrow> None
      | Some (Inl e, l) \<Rightarrow> Some (Inl e, l)
      | Some (Inr a, l) \<Rightarrow> map_option (\<lambda>(r, l'). (r, l @ l')) (f a))"

text \<open>The CSV: the header written by \<open>writeheader\<close>, then one \<open>writerow\<close> per user.\<close>

definition fieldnames :: "string list" where
  "fieldnames = [''UserId'', ''Username'', ''Email'', ''GivenName'', ''FamilyName'']"

definition is_primary :: "email \<Rightarrow> bool" where
  "is_primary e = (case Primary e of None \<Rightarrow> False | Some b \<Rightarrow> b)"

definition primary_email :: "user \<Rightarrow> string" where
  "primary_email u =
     (case find is_primary (case Emails u of None \<Rightarrow> [] | Some es \<Rightarrow> es) of
        None \<Rightarrow> []
      | Some e \<Rightarrow> Value e)"

definition get_or_empty :: "string option \<Rightarrow> string" where
  "get_or_empty v = (case v of None \<Rightarrow> [] | Some s \<Rightarrow> s)"

definition user_row :: "user \<Rightarrow> string list" where
  "user_row u =
     [get_or_empty (UserId u),
      get_or_empty (UserName u),
      primary_email u,
      get_or_empty (case user_Name u of None \<Rightarrow> None | Some n \<Rightarrow> GivenName n),
      get_or_empty (case user_Name u of None \<Rightarrow> None | Some n \<Rightarrow> FamilyName n)]"

definition write_csv :: "user list \<Rightarrow> csv" where
  "write_csv users = fieldnames # map user_row users"

subsection \<open>\<open>iam_identity_center_user_extract_lambda.py\<close>\<close>

record extract_result =
  success :: bool
  message :: string
  user_count :: "nat option"

definition IAMIdentityCenterUserExtractor_init :: "string \<Rightarrow> unit run" where
  "IAMIdentityCenterUserExtractor_init region =
     emit (Print (''Initializing IAM Identity Center User Extractor in '' @ region))"

definition extract_users_try :: "aws \<Rightarrow> string \<Rightarrow> string \<Rightarrow> extract_result prog" where
  "extract_users_try env bucket_name output_file =
     and_then_opt (Some (invoke ListInstances (list_instances env))) (\<lambda>instances.
     case Instances instances of
       Some (inst # _) \<Rightarrow>
         and_then_opt (Some (emit (Print
           (''Found IAM Identity Center instance: '' @ InstanceArn inst)))) (\<lambda>_.
         and_then_opt (Some (emit (Print
           (''Identity Store ID: '' @ IdentityStoreId inst)))) (\<lambda>_.
         and_then_opt (list_all_users (list_users env) (IdentityStoreId inst) None []) (\<lambda>users.
         let s3_key = ''users/'' @ output_file in
         Some (
           and_then
             (invoke (PutObject bucket_name s3_key (write_csv users))
                (put_object env bucket_name s3_key (write_csv users))) (\<lambda>_.
           and_then
             (emit (Print (''Exported '' @ str_nat (length users) @ '' users to s3://''
                @ bucket_name @ ''/'' @ s3_key))) (\<lambda>_.
           ret \<lparr>success = True,
                message = ''Successfully exported '' @ str_nat (length users) @ '' users to S3'',
                user_count = Some (length users)\<rparr>))))))
     | _ \<Rightarrow>
         Some (
           and_then (emit (Print ''No IAM Identity Center instances found'')) (\<lambda>_.
           ret \<lparr>success = False,
                message = ''No IAM Identity Center instances found'',
                user_count = None\<rparr>)))"

definition extract_users :: "aws \<Rightarrow> string \<Rightarrow> string \<Rightarrow> extract_result prog" where
  "extract_users env bucket_name output_file =
     map_option
       (\<lambda>m. except_Exception m
          (\<lambda>e. let error_message =
                     (case e of
                        ClientError code text \<Rightarrow>
                          ''Error exporting IAM Identity Center users: '' @ text
                      | Exception text \<Rightarrow> ''Unexpected error exporting users: '' @ text)
                in
                and_then (emit (Print error_message)) (\<lambda>_.
                ret \<lparr>success = False, message = error_message, user_count = None\<rparr>)))
       (extract_users_try env bucket_name output_file)"

section \<open>The setup script: \<open>setup_q_developer_3p_metrcis.py\<close>\<close>

text \<open>The constructor is the same in both setup modules: it builds the clients, asks
  STS for the account and prints one line.\<close>

definition QDeveloper3PSetup_init :: "aws \<Rightarrow> string \<Rightarrow> unit run" where
  "QDeveloper3PSetup_init env region =
     and_then (invoke GetCallerIdentity (get_caller_identity env)) (\<lambda>account_id.
     emit (Print (''Initializing Amazon Q Developer to 3P setup in '' @ region)))"

definition display_q_developer_instructions :: "string \<Rightarrow> bool run" where
  "display_q_developer_instructions bucket_name =
     and_then (emit (Print (CHR 0x0A # replicate 80 CHR ''=''))) (\<lambda>_.
     and_then (emit (Print ''MANUAL STEP: Amazon Q Developer Configuration'')) (\<lambda>_.
     and_then (emit (Print (replicate 80 CHR ''=''))) (\<lambda>_.
     and_then (emit (Print ''Please complete the following steps manually:'')) (\<lambda>_.
     and_then (emit (Print (CHR 0x0A # ''1. Subscribe to Amazon Q Developer Pro''))) (\<lambda>_.
     and_then (emit (Print (''2. Go to: https://us-east-1.console.aws.amazon.com/amazonq/''
       @ ''developer/home?region=us-east-1#/settings?region=us-east-1''))) (\<lambda>_.
     and_then (emit (Print (''3. Edit Preferences '' @ [CHR 0xE2, CHR 0x80, CHR 0x93]
       @ '' Enable prompt logging:''))) (\<lambda>_.
     and_then (emit (Print (''   - Set S3 location to: s3://'' @ bucket_name
       @ ''/q-developer/prompt-logs/''))) (\<lambda>_.
     and_then (emit (Print ''4. Edit Amazon Q Developer usage activity:'')) (\<lambda>_.
     and_then (emit (Print
       (''   - Enable '' @ [CHR 0x27] @ ''Collect granular metrics per user'' @ [CHR 0x27]))) (\<lambda>_.
     and_then (emit (Print (''   - Set S3 location to: s3://'' @ bucket_name
       @ ''/q-developer/metrics/''))) (\<lambda>_.
     and_then (emit (Print
       (CHR 0x0A # ''After completing these steps, press Enter to continue...''))) (\<lambda>_.
     and_then (emit Input) (\<lambda>_.
     ret True)))))))))))))"

text \<open>
  \<open>export_identity_center_users\<close> of the script writes the CSV to a temporary file and
  uploads the file; the upload is shown with the rows of the file. The local file system
  is taken to work. The \<open>finally\<close> block closes and removes the file and neither prints
  nor raises then.
\<close>

definition cli_export_identity_center_users_try ::
  "aws \<Rightarrow> string \<Rightarrow> string \<Rightarrow> bool prog"
where
  "cli_export_identity_center_users_try env bucket_name output_file =
     and_then_opt (Some (invoke ListInstances (list_instances env))) (\<lambda>instances.
     case Instances instances of
       Some (inst # _) \<Rightarrow>
         and_then_opt (Some (emit (Print
           (''Found IAM Identity Center instance: '' @ InstanceArn inst)))) (\<lambda>_.
         and_then_opt (Some (emit (Print
           (''Identity Store ID: '' @ IdentityStoreId inst)))) (\<lambda>_.
         and_then_opt (list_all_users (list_users env) (IdentityStoreId inst) None []) (\<lambda>users.
         let temp_file = write_csv users in
         Some (
           except_ClientError
             (let s3_key = ''users/'' @ output_file in
              and_then
                (invoke (UploadFile temp_file bucket_name s3_key)
                   (upload_file env temp_file bucket_name s3_key)) (\<lambda>_.
              and_then
                (emit (Print (''Exported '' @ str_nat (length users) @ '' users to s3://''
                   @ bucket_name @ ''/'' @ s3_key))) (\<lambda>_.
              ret True)))
             (\<lambda>code text.
                and_then (emit (Print (''Error uploading to S3: '' @ text))) (\<lambda>_.
                ret False))))))
     | _ \<Rightarrow>
         Some (
           and_then (emit (Print ''No IAM Identity Center instances found'')) (\<lambda>_.
           ret False)))"

definition export_error_handler :: "exn \<Rightarrow> bool run" where
  "export_error_handler e =
     (case e of
        ClientError code text \<Rightarrow>
          and_then (emit (Print (''Error exporting IAM Identity Center users: '' @ text))) (\<lambda>_.
          ret False)
      | Exception text \<Rightarrow>
          and_then (emit (Print (''Unexpected error exporting users: '' @ text))) (\<lambda>_.
          ret False))"

definition cli_export_identity_center_users :: "aws \<Rightarrow> string \<Rightarrow> string \<Rightarrow> bool prog" where
  "cli_export_identity_center_users env bucket_name output_file =
     map_option (\<lambda>m. except_Exception m export_error_handler)
       (cli_export_identity_center_users_try env bucket_name output_file)"

text \<open>The closing lines of \<open>run_setup\<close>, the same in both modules.\<close>

definition setup_completed :: "string \<Rightarrow> bool \<Rightarrow> string \<Rightarrow> bool run" where
  "setup_completed bucket_name export_users output_file =
     and_then (emit (Print (CHR 0x0A # ''Setup completed successfully!''))) (\<lambda>_.
     and_then (emit (Print (''S3 bucket '' @ [CHR 0x27] @ bucket_name @ [CHR 0x27]
       @ '' is configured for Amazon Q Developer data ingestion''))) (\<lambda>_.
     and_then (emit (Print (''CloudTrail is configured to log Q Developer events to ''
       @ [CHR 0x27] @ bucket_name @ ''/cloudtrail/'' @ [CHR 0x27]))) (\<lambda>_.
     and_then
       (if export_users then
          emit (Print (''IAM Identity Center users exported to s3://'' @ bucket_name
            @ ''/users/'' @ output_file))
        else ret ()) (\<lambda>_.
     ret True))))"

definition cli_run_setup :: "aws \<Rightarrow> string \<Rightarrow> json \<Rightarrow> bool \<Rightarrow> string \<Rightarrow> bool prog" where
  "cli_run_setup env bucket_name region export_users output_file =
     and_then_opt (Some (emit (Print ''Starting Amazon Q Developer to 3P setup...''))) (\<lambda>_.
     and_then_opt (Some (create_s3_bucket env bucket_name region)) (\<lambda>created.
     if \<not> created then
       Some (
         and_then (emit (Print ''Failed to create S3 bucket. Aborting setup.'')) (\<lambda>_.
         ret False))
     else
     and_then_opt (Some (display_q_developer_instructions bucket_name)) (\<lambda>_.
     and_then_opt (Some (setup_cloudtrail env bucket_name default_trail_name)) (\<lambda>trail_ok.
     if \<not> trail_ok then
       Some (
         and_then (emit (Print ''Failed to setup CloudTrail. Aborting setup.'')) (\<lambda>_.
         ret False))
     else
     and_then_opt
       (if export_users then
          and_then_opt (cli_export_identity_center_users env bucket_name output_file) (\<lambda>exported.
          if \<not> exported then
            Some (emit (Print ''Failed to export IAM Identity Center users.''))
          else Some (ret ()))
        else Some (ret ())) (\<lambda>_.
     Some (setup_completed bucket_name export_users output_file))))))"

section \<open>The setup Lambda: \<open>q_developer_3p_metrics_setup_lambda.py\<close>\<close>

text \<open>
  The module imports \<open>json\<close>, \<open>csv\<close>, \<open>time\<close>, \<open>os\<close>, \<open>ClientError\<close> and
  \<open>boto3\<close>. It does not import \<open>io\<close>, so evaluating \<open>io.StringIO()\<close> raises
  \<open>NameError\<close>, which is an \<open>Exception\<close>.
\<close>

definition lambda_io_StringIO :: "unit run" where
  "lambda_io_StringIO =
     raise (Exception (''name '' @ [CHR 0x27] @ ''io'' @ [CHR 0x27] @ '' is not defined''))"

definition lambda_export_identity_center_users_try ::
  "aws \<Rightarrow> string \<Rightarrow> string \<Rightarrow> bool prog"
where
  "lambda_export_identity_center_users_try env bucket_name output_file =
     and_then_opt (Some (invoke ListInstances (list_instances env))) (\<lambda>instances.
     case Instances instances of
       Some (inst # _) \<Rightarrow>
         and_then_opt (Some (emit (Print
           (''Found IAM Identity Center instance: '' @ InstanceArn inst)))) (\<lambda>_.
         and_then_opt (Some (emit (Print
           (''Identity Store ID: '' @ IdentityStoreId inst)))) (\<lambda>_.
         and_then_opt (list_all_users (list_users env) (IdentityStoreId inst) None []) (\<lambda>users.
         let s3_key = ''users/'' @ output_file in
         Some (
           and_then lambda_io_StringIO (\<lambda>csv_buffer.
           and_then
             (invoke (PutObject bucket_name s3_key (write_csv users))
                (put_object env bucket_name s3_key (write_csv users))) (\<lambda>_.
           and_then
             (emit (Print (''Exported '' @ str_nat (length users) @ '' users to s3://''
                @ bucket_name @ ''/'' @ s3_key))) (\<lambda>_.
           ret True)))))))
     | _ \<Rightarrow>
         Some (
           and_then (emit (Print ''No IAM Identity Center instances found'')) (\<lambda>_.
           ret False)))"

definition lambda_export_identity_center_users :: "aws \<Rightarrow> string \<Rightarrow> string \<Rightarrow> bool prog" where
  "lambda_export_identity_center_users env bucket_name output_file =
     map_option (\<lambda>m. except_Exception m export_error_handler)
       (lambda_export_identity_center_users_try env bucket_name output_file)"

definition lambda_run_setup :: "aws \<Rightarrow> string \<Rightarrow> json \<Rightarrow> bool \<Rightarrow> string \<Rightarrow> bool prog" where
  "lambda_run_setup env bucket_name region export_users output_file =
     and_then_opt (Some (emit (Print ''Starting Amazon Q Developer to 3P setup...''))) (\<lambda>_.
     and_then_opt (Some (create_s3_bucket env bucket_name region)) (\<lambda>created.
     if \<not> created then
       Some (
         and_then (emit (Print ''Failed to create S3 bucket. Aborting setup.'')) (\<lambda>_.
         ret False))
     else
     and_then_opt (Some (setup_cloudtrail env bucket_name default_trail_name)) (\<lambda>trail_ok.
     if \<not> trail_ok then
       Some (
         and_then (emit (Print ''Failed to setup CloudTrail. Aborting setup.'')) (\<lambda>_.
         ret False))
     else
     and_then_opt
       (if export_users then
          and_then_opt (lambda_export_identity_center_users env bucket_name output_file) (\<lambda>exported.
          if \<not> exported then
            Some (emit (Print ''Failed to export IAM Identity Center users.''))
          else Some (ret ()))
        else Some (ret ())) (\<lambda>_.
     Some (setup_completed bucket_name export_users output_file)))))"

section \<open>The remote-invocable handlers\<close>

text \<open>
  The event is a dictionary of JSON values. \<open>event.get(key, default)\<close> gives the default
  only when the key is absent. The response is the status code and the dictionary given
  to \<open>json.dumps\<close>.

  The handlers pass the values of the event on to the component as they are. The region
  and the output file may be any JSON value: the component formats them in f-strings
  (\<open>py_str\<close>), compares the region with \<open>'us-east-1'\<close> and passes it on as
  \<open>LocationConstraint\<close>. The bucket name is the \<open>Bucket\<close> parameter of the provider calls,
  which the provider takes as a string: a run with a truthy bucket name of another kind
  is not determined (\<open>None\<close>), and neither is one with a region or an output file that has
  no text in the model.
\<close>

type_synonym payload = "string \<rightharpoonup> json"

definition event_get :: "payload \<Rightarrow> string \<Rightarrow> json \<Rightarrow> json" where
  "event_get event key dflt = (case event key of None \<Rightarrow> dflt | Some v \<Rightarrow> v)"

record response =
  statusCode :: int
  body :: json

definition missing_bucket_name :: response where
  "missing_bucket_name =
     \<lparr>statusCode = 400,
      body = JDict [(''message'', JStr ''Missing required parameter: bucket_name'')]\<rparr>"

text \<open>\<open>QDeveloper3PSetup(bucket_name, region).run_setup(export_users, output_file)\<close>\<close>

definition setup_component :: "aws \<Rightarrow> json \<Rightarrow> json \<Rightarrow> json \<Rightarrow> json \<Rightarrow> bool prog" where
  "setup_component env bucket_name region export_users output_file =
     (case (bucket_name, py_str region, py_str output_file) of
        (JStr b, Some r, Some f) \<Rightarrow>
          and_then_opt (Some (QDeveloper3PSetup_init env r)) (\<lambda>_.
          lambda_run_setup env b region (truthy export_users) f)
      | _ \<Rightarrow> None)"

definition setup_lambda_handler :: "aws \<Rightarrow> payload \<Rightarrow> response prog" where
  "setup_lambda_handler env event =
     (let bucket_name = event_get event ''bucket_name'' JNull;
          region = event_get event ''region'' (JStr ''us-east-1'');
          export_users = event_get event ''export_users'' (JBool False);
          output_file = event_get event ''output_file'' (JStr ''users.csv'')
      in
      if \<not> truthy bucket_name then Some (ret missing_bucket_name)
      else
        and_then_opt (setup_component env bucket_name region export_users output_file) (\<lambda>result.
        Some (ret
          \<lparr>statusCode = (if result then 200 else 500),
           body = JDict [
             (''message'',
                JStr (if result then ''Setup completed successfully'' else ''Setup failed'')),
             (''bucket_name'', bucket_name),
             (''region'', region),
             (''export_users'', export_users),
             (''output_file'', if truthy export_users then output_file else JNull)]\<rparr>)))"

text \<open>\<open>IAMIdentityCenterUserExtractor(bucket_name, region).extract_users(output_file)\<close>\<close>

definition extract_component :: "aws \<Rightarrow> json \<Rightarrow> json \<Rightarrow> json \<Rightarrow> extract_result prog" where
  "extract_component env bucket_name region output_file =
     (case (bucket_name, py_str region, py_str output_file) of
        (JStr b, Some r, Some f) \<Rightarrow>
          and_then_opt (Some (IAMIdentityCenterUserExtractor_init r)) (\<lambda>_.
          extract_users env b f)
      | _ \<Rightarrow> None)"

definition extract_lambda_handler :: "aws \<Rightarrow> payload \<Rightarrow> response prog" where
  "extract_lambda_handler env event =
     (let bucket_name = event_get event ''bucket_name'' JNull;
          region = event_get event ''region'' (JStr ''us-east-1'');
          output_file = event_get event ''output_file'' (JStr ''users.csv'')
      in
      if \<not> truthy bucket_name then Some (ret missing_bucket_name)
      else
        and_then_opt (extract_component env bucket_name region output_file) (\<lambda>result.
        Some (ret
          \<lparr>statusCode = (if success result then 200 else 500),
           body = JDict [
             (''message'', JStr (message result)),
             (''bucket_name'', bucket_name),
             (''region'', region),
             (''output_file'', output_file),
             (''user_count'',
                JInt (case user_count result of None \<Rightarrow> 0 | Some n \<Rightarrow> int n))]\<rparr>)))"

section \<open>Resource teardown: \<open>cleanup_q_developer_3p_metrics.py\<close>\<close>

definition QDeveloper3PCleanup_init :: "string \<Rightarrow> unit run" where
  "QDeveloper3PCleanup_init region = emit (Print (''Initializing cleanup for region '' @ region))"

definition rules_to_delete :: "string list" where
  "rules_to_delete = [''QDeveloper3PSetupSchedule'', ''IAMIdentityCenterUserExtractSchedule'']"

definition delete_eventbridge_rule :: "aws \<Rightarrow> string \<Rightarrow> unit run" where
  "delete_eventbridge_rule env rule_name =
     except_ClientError
       (and_then
          (invoke (ListTargetsByRule rule_name) (list_targets_by_rule env rule_name))
          (\<lambda>targets_response.
        and_then
          (case Targets targets_response of
             Some (t # ts) \<Rightarrow>
               (let target_ids = map target_Id (t # ts) in
                and_then
                  (invoke (RemoveTargets rule_name target_ids)
                     (remove_targets env rule_name target_ids)) (\<lambda>_.
                emit (Print (''Removed targets from EventBridge rule: '' @ rule_name))))
           | _ \<Rightarrow> ret ()) (\<lambda>_.
        and_then (invoke (DeleteRule rule_name) (delete_rule env rule_name)) (\<lambda>_.
        emit (Print (''Deleted EventBridge rule: '' @ rule_name))))))
       (\<lambda>code text.
          if code = ''ResourceNotFoundException'' then
            emit (Print (''EventBridge rule '' @ rule_name @ '' not found (already deleted)''))
          else
            emit (Print (''Error deleting EventBridge rule '' @ rule_name @ '': '' @ text)))"

definition delete_eventbridge_rules :: "aws \<Rightarrow> unit run" where
  "delete_eventbridge_rules env = for_each rules_to_delete (delete_eventbridge_rule env)"

definition functions_to_delete :: "string list" where
  "functions_to_delete = [''QDeveloper3PSetup'', ''IAMIdentityCenterUserExtract'']"

definition delete_lambda_function :: "aws \<Rightarrow> string \<Rightarrow> unit run" where
  "delete_lambda_function env function_name =
     except_ClientError
       (and_then
          (invoke (DeleteFunction function_name) (delete_function env function_name)) (\<lambda>_.
        emit (Print (''Deleted Lambda function: '' @ function_name))))
       (\<lambda>code text.
          if code = ''ResourceNotFoundException'' then
            emit (Print (''Lambda function '' @ function_name @ '' not found (already deleted)''))
          else
            emit (Print (''Error deleting Lambda function '' @ function_name @ '': '' @ text)))"

definition delete_lambda_functions :: "aws \<Rightarrow> unit run" where
  "delete_lambda_functions env = for_each functions_to_delete (delete_lambda_function env)"

text \<open>The roles with their inline policy: \<open>(role_name, policy_name)\<close>.\<close>

definition roles_to_delete :: "(string \<times> string) list" where
  "roles_to_delete =
     [(''lambda-q-developer-role'', ''QDeveloper3PPermissions''),
      (''lambda-iam-identity-center-extract-role'', ''IAMIdentityCenterExtractPermissions'')]"

definition delete_iam_role_and_policy :: "aws \<Rightarrow> string \<times> string \<Rightarrow> unit run" where
  "delete_iam_role_and_policy env role_info =
     (let role_name = fst role_info; policy_name = snd role_info in
      except_ClientError
        (and_then
           (except_ClientError
              (and_then
                 (invoke (DeleteRolePolicy role_name policy_name)
                    (delete_role_policy env role_name policy_name)) (\<lambda>_.
               emit (Print (''Deleted inline policy '' @ policy_name @ '' from role ''
                 @ role_name))))
              (\<lambda>code text.
                 if code \<noteq> ''NoSuchEntity'' then
                   emit (Print (''Error deleting policy '' @ policy_name @ '': '' @ text))
                 else ret ())) (\<lambda>_.
         and_then (invoke (DeleteRole role_name) (delete_role env role_name)) (\<lambda>_.
         emit (Print (''Deleted IAM role: '' @ role_name)))))
        (\<lambda>code text.
           if code = ''NoSuchEntity'' then
             emit (Print (''IAM role '' @ role_name @ '' not found (already deleted)''))
           else
             emit (Print (''Error deleting IAM role '' @ role_name @ '': '' @ text))))"

definition delete_iam_roles_and_policies :: "aws \<Rightarrow> unit run" where
  "delete_iam_roles_and_policies env = for_each roles_to_delete (delete_iam_role_and_policy env)"

definition cleanup_trail_name :: "string \<Rightarrow> string" where
  "cleanup_trail_name bucket_name = ''q-developer-3p-trail-'' @ bucket_name"

definition delete_cloudtrail :: "aws \<Rightarrow> string \<Rightarrow> unit run" where
  "delete_cloudtrail env bucket_name =
     (let trail_name = cleanup_trail_name bucket_name in
      except_ClientError
        (and_then (invoke (DeleteTrail trail_name) (delete_trail env trail_name)) (\<lambda>_.
         emit (Print (''Deleted CloudTrail: '' @ trail_name))))
        (\<lambda>code text.
           if code = ''TrailNotFoundException'' then
             emit (Print (''CloudTrail '' @ trail_name @ '' not found (already deleted)''))
           else
             emit (Print (''Error deleting CloudTrail '' @ trail_name @ '': '' @ text))))"

text \<open>The first loop of \<open>empty_s3_bucket\<close>, over the pages of \<open>list_objects_v2\<close>; it
  returns \<open>objects_deleted\<close>.\<close>

fun delete_current_objects ::
  "aws \<Rightarrow> string \<Rightarrow> (exn + objects_page) list \<Rightarrow> nat \<Rightarrow> nat run"
where
  "delete_current_objects env bucket_name [] objects_deleted = ret objects_deleted"
| "delete_current_objects env bucket_name (answer # answers) objects_deleted =
     and_then (invoke (ListObjectsV2 bucket_name) answer) (\<lambda>page.
     and_then
       (case Contents page of
          None \<Rightarrow> ret objects_deleted
        | Some contents \<Rightarrow>
            (let objects_to_delete = map (\<lambda>obj. (Key obj, None)) contents in
             if objects_to_delete \<noteq> [] then
               and_then
                 (invoke (DeleteObjects bucket_name objects_to_delete)
                    (delete_objects env bucket_name objects_to_delete)) (\<lambda>_.
               ret (objects_deleted + length objects_to_delete))
             else ret objects_deleted)) (\<lambda>objects_deleted'.
     delete_current_objects env bucket_name answers objects_deleted'))"

text \<open>
  The second loop, over the pages of \<open>list_object_versions\<close>, together with the
  \<open>try ... except ClientError: pass\<close> around it. \<open>objects_deleted\<close> is a variable of
  the enclosing function, so after a \<open>ClientError\<close> it holds what the pages before had
  added: the handler is written at the page where the exception occurs and returns the
  count reached there.
\<close>

fun delete_object_versions ::
  "aws \<Rightarrow> string \<Rightarrow> (exn + versions_page) list \<Rightarrow> nat \<Rightarrow> nat run"
where
  "delete_object_versions env bucket_name [] objects_deleted = ret objects_deleted"
| "delete_object_versions env bucket_name (answer # answers) objects_deleted =
     except_ClientError
       (and_then (invoke (ListObjectVersions bucket_name) answer) (\<lambda>page.
        let versions_to_delete =
              (case Versions page of
                 None \<Rightarrow> []
               | Some vs \<Rightarrow> map (\<lambda>obj. (version_Key obj, Some (VersionId obj))) vs)
              @ (case DeleteMarkers page of
                   None \<Rightarrow> []
                 | Some ms \<Rightarrow> map (\<lambda>obj. (version_Key obj, Some (VersionId obj))) ms)
        in
        and_then
          (if versions_to_delete \<noteq> [] then
             and_then
               (invoke (DeleteObjects bucket_name versions_to_delete)
                  (delete_objects env bucket_name versions_to_delete)) (\<lambda>_.
             ret (objects_deleted + length versions_to_delete))
           else ret objects_deleted) (\<lambda>objects_deleted'.
        delete_object_versions env bucket_name answers objects_deleted')))
       (\<lambda>code text. ret objects_deleted)"

definition empty_s3_bucket :: "aws \<Rightarrow> string \<Rightarrow> unit run" where
  "empty_s3_bucket env bucket_name =
     except_ClientError
       (and_then (invoke (HeadBucket bucket_name) (head_bucket env bucket_name)) (\<lambda>_.
        and_then
          (delete_current_objects env bucket_name (list_objects_v2 env bucket_name) 0)
          (\<lambda>objects_deleted.
        and_then
          (delete_object_versions env bucket_name (list_object_versions env bucket_name)
             objects_deleted) (\<lambda>objects_deleted'.
        emit (Print (''Emptied S3 bucket '' @ bucket_name @ '' (''
          @ str_nat objects_deleted' @ '' objects deleted)''))))))
       (\<lambda>code text.
          if code = ''404'' then
            emit (Print (''S3 bucket '' @ bucket_name @ '' not found (already deleted)''))
          else
            emit (Print (''Error emptying S3 bucket '' @ bucket_name @ '': '' @ text)))"

definition delete_s3_bucket :: "aws \<Rightarrow> string \<Rightarrow> unit run" where
  "delete_s3_bucket env bucket_name =
     except_ClientError
       (and_then (invoke (DeleteBucket bucket_name) (delete_bucket env bucket_name)) (\<lambda>_.
        emit (Print (''Deleted S3 bucket: '' @ bucket_name))))
       (\<lambda>code text.
          if code = ''NoSuchBucket'' then
            emit (Print (''S3 bucket '' @ bucket_name @ '' not found (already deleted)''))
          else
            emit (Print (''Error deleting S3 bucket '' @ bucket_name @ '': '' @ text)))"

definition cleanup_completed :: "unit run" where
  "cleanup_completed =
     and_then (emit (Print (CHR 0x0A # replicate 50 CHR ''=''))) (\<lambda>_.
     and_then (emit (Print ''Cleanup completed!'')) (\<lambda>_.
     and_then (emit (Print (CHR 0x0A # ''IMPORTANT: Manual steps required:''))) (\<lambda>_.
     and_then (emit (Print ''1. Go to Amazon Q Developer console'')) (\<lambda>_.
     and_then (emit (Print ''2. Disable prompt logging in Preferences'')) (\<lambda>_.
     and_then (emit (Print (''3. Disable '' @ [CHR 0x27]
       @ ''Collect granular metrics per user'' @ [CHR 0x27] @ '' in usage activity''))) (\<lambda>_.
     emit (Print ''4. Remove S3 location configurations'')))))))"

definition run_cleanup :: "aws \<Rightarrow> string \<Rightarrow> string \<Rightarrow> unit run" where
  "run_cleanup env bucket_name region =
     and_then (emit (Print ''Starting cleanup for Q Developer 3P integration...'')) (\<lambda>_.
     and_then (emit (Print (''Bucket: '' @ bucket_name))) (\<lambda>_.
     and_then (emit (Print (''Region: '' @ region))) (\<lambda>_.
     and_then (emit (Print (replicate 50 CHR ''-''))) (\<lambda>_.
     and_then (emit (Print ''1. Deleting EventBridge rules...'')) (\<lambda>_.
     and_then (delete_eventbridge_rules env) (\<lambda>_.
     and_then (emit (Print (CHR 0x0A # ''2. Deleting Lambda functions...''))) (\<lambda>_.
     and_then (delete_lambda_functions env) (\<lambda>_.
     and_then (emit (Print (CHR 0x0A # ''3. Deleting IAM roles and policies...''))) (\<lambda>_.
     and_then (delete_iam_roles_and_policies env) (\<lambda>_.
     and_then (emit (Print (CHR 0x0A # ''4. Deleting CloudTrail...''))) (\<lambda>_.
     and_then (delete_cloudtrail env bucket_name) (\<lambda>_.
     and_then (emit (Print (CHR 0x0A # ''5. Emptying S3 bucket...''))) (\<lambda>_.
     and_then (empty_s3_bucket env bucket_name) (\<lambda>_.
     and_then (emit (Print (CHR 0x0A # ''6. Deleting S3 bucket...''))) (\<lambda>_.
     and_then (delete_s3_bucket env bucket_name) (\<lambda>_.
     cleanup_completed))))))))))))))))"

section \<open>Predicates on calls and logs\<close>

text \<open>The calls of the bucket step of the setup.\<close>

fun bucket_step_call :: "call \<Rightarrow> bool" where
  "bucket_step_call (HeadBucket b) = True"
| "bucket_step_call (CreateBucket b l) = True"
| "bucket_step_call (PutBucketPolicy b p) = True"
| "bucket_step_call c = False"

fun is_CreateTrail :: "call \<Rightarrow> bool" where
  "is_CreateTrail (CreateTrail n b p m v) = True"
| "is_CreateTrail c = False"

text \<open>The calls that store a CSV in the bucket.\<close>

fun uploads :: "call \<Rightarrow> bool" where
  "uploads (PutObject b k content) = True"
| "uploads (UploadFile content b k) = True"
| "uploads c = False"

text \<open>Every call of a run satisfies \<open>P\<close>, when the run is determined.\<close>

definition issues_only :: "(call \<Rightarrow> bool) \<Rightarrow> 'a prog \<Rightarrow> bool" where
  "issues_only P m = (case m of None \<Rightarrow> True | Some x \<Rightarrow> list_all P (calls (snd x)))"

text \<open>The users and the e-mail addresses a response carries.\<close>

definition page_users :: "list_users_response \<Rightarrow> user list" where
  "page_users page = (case Users page of None \<Rightarrow> [] | Some us \<Rightarrow> us)"

definition user_emails :: "user \<Rightarrow> email list" where
  "user_emails u = (case Emails u of None \<Rightarrow> [] | Some es \<Rightarrow> es)"






text \<open>The provider answers with a \<open>ClientError\<close> of the given code.\<close>

definition answers_code :: "string \<Rightarrow> exn + 'a \<Rightarrow> bool" where
  "answers_code code answer =
     (case answer of Inl (ClientError c text) \<Rightarrow> c = code | _ \<Rightarrow> False)"

text \<open>The log of a \<open>run_setup\<close> that stops after the bucket step.\<close>

definition bucket_failure_log :: "aws \<Rightarrow> string \<Rightarrow> json \<Rightarrow> event list" where
  "bucket_failure_log env bucket_name region =
     Print ''Starting Amazon Q Developer to 3P setup...''
       # snd (create_s3_bucket env bucket_name region)
       @ [Print ''Failed to create S3 bucket. Aborting setup.'']"

text \<open>What \<open>run_setup\<close> returns or raises as far as the bucket and the trail decide it.\<close>

definition setup_result :: "aws \<Rightarrow> string \<Rightarrow> json \<Rightarrow> exn + bool" where
  "setup_result env bucket_name region =
     (case fst (create_s3_bucket env bucket_name region) of
        Inl e \<Rightarrow> Inl e
      | Inr created \<Rightarrow>
          if \<not> created then Inr False
          else
            (case fst (setup_cloudtrail env bucket_name default_trail_name) of
               Inl e \<Rightarrow> Inl e
             | Inr trail_ok \<Rightarrow> Inr trail_ok))"

section \<open>Example providers\<close>

text \<open>
  A new account: the bucket does not exist, there is no trail, every call succeeds. The
  identity directory has one instance and answers \<open>list_users\<close> with two pages of one
  user each, the second without a continuation token. For the teardown each schedule rule
  has two targets, and the bucket listings have one page each.
\<close>

definition user1 :: user where
  "user1 =
     \<lparr>UserId = Some ''user-1'', UserName = Some ''testuser1'',
      Emails = Some [\<lparr>Value = ''test1@example.com'', Primary = Some True\<rparr>],
      user_Name = Some \<lparr>GivenName = Some ''Test'', FamilyName = Some ''User1''\<rparr>\<rparr>"

definition user2 :: user where
  "user2 =
     \<lparr>UserId = Some ''user-2'', UserName = Some ''testuser2'',
      Emails = Some [\<lparr>Value = ''other@example.com'', Primary = None\<rparr>],
      user_Name = Some \<lparr>GivenName = Some ''Test'', FamilyName = None\<rparr>\<rparr>"

definition page1 :: list_users_response where
  "page1 = \<lparr>Users = Some [user1], NextToken = Some ''token123''\<rparr>"

definition page2 :: list_users_response where
  "page2 = \<lparr>Users = Some [user2], NextToken = None\<rparr>"

definition directory :: sso_instance where
  "directory =
     \<lparr>InstanceArn = ''arn:aws:sso:::instance/ssoins-12345'', IdentityStoreId = ''d-12345''\<rparr>"

definition objects_page1 :: objects_page where
  "objects_page1 = \<lparr>Contents = Some [\<lparr>Key = ''file1.txt''\<rparr>, \<lparr>Key = ''file2.txt''\<rparr>]\<rparr>"

definition versions_page1 :: versions_page where
  "versions_page1 =
     \<lparr>Versions = Some [\<lparr>version_Key = ''file1.txt'', VersionId = ''v1''\<rparr>],
      DeleteMarkers = Some [\<lparr>version_Key = ''file2.txt'', VersionId = ''v2''\<rparr>]\<rparr>"

definition new_account :: aws where
  "new_account =
     \<lparr>get_caller_identity = Inr (Some ''123456789012''),
      head_bucket = (\<lambda>bucket. Inl (ClientError ''404'' ''Not Found'')),
      create_bucket = (\<lambda>bucket location. Inr ()),
      put_bucket_policy = (\<lambda>bucket policy. Inr ()),
      describe_trails = Inr \<lparr>trailList = Some []\<rparr>,
      create_trail = (\<lambda>trail bucket. Inr ()),
      put_event_selectors = (\<lambda>trail selectors. Inr ()),
      start_logging = (\<lambda>trail. Inr ()),
      list_instances = Inr \<lparr>Instances = Some [directory]\<rparr>,
      list_users = [Inr page1, Inr page2],
      put_object = (\<lambda>bucket key content. Inr ()),
      upload_file = (\<lambda>content bucket key. Inr ()),
      list_targets_by_rule =
        (\<lambda>rule. Inr \<lparr>Targets = Some [\<lparr>target_Id = ''1''\<rparr>, \<lparr>target_Id = ''2''\<rparr>]\<rparr>),
      remove_targets = (\<lambda>rule ids. Inr ()),
      delete_rule = (\<lambda>rule. Inr ()),
      delete_function = (\<lambda>function. Inr ()),
      delete_role_policy = (\<lambda>role policy. Inr ()),
      delete_role = (\<lambda>role. Inr ()),
      delete_trail = (\<lambda>trail. Inr ()),
      list_objects_v2 = (\<lambda>bucket. [Inr objects_page1]),
      list_object_versions = (\<lambda>bucket. [Inr versions_page1]),
      delete_objects = (\<lambda>bucket objects. Inr ()),
      delete_bucket = (\<lambda>bucket. Inr ())\<rparr>"

text \<open>The bucket is absent and its creation is refused.\<close>

definition creation_denied :: aws where
  "creation_denied =
     new_account\<lparr>create_bucket :=
       (\<lambda>bucket location. Inl (ClientError ''AccessDenied'' ''Access Denied''))\<rparr>"

text \<open>The probe of the bucket is refused, so \<open>create_s3_bucket\<close> fails.\<close>

definition bucket_forbidden :: aws where
  "bucket_forbidden =
     new_account\<lparr>head_bucket := (\<lambda>bucket. Inl (ClientError ''403'' ''Forbidden''))\<rparr>"

text \<open>The trail exists already and the event selectors are refused.\<close>

definition selectors_refused :: aws where
  "selectors_refused =
     new_account\<lparr>
       describe_trails := Inr \<lparr>trailList = Some [\<lparr>trail_Name = Some ''QDeveloper3PTrail''\<rparr>]\<rparr>,
       put_event_selectors :=
         (\<lambda>trail selectors. Inl (ClientError ''InvalidEventSelectorsException'' ''Invalid''))\<rparr>"

text \<open>No identity directory instance: the user export fails.\<close>

definition no_directory :: aws where
  "no_directory = new_account\<lparr>list_instances := Inr \<lparr>Instances = Some []\<rparr>\<rparr>"



text \<open>Nothing is there: every teardown call is answered with the not-found code of its
  service.\<close>

definition nothing_there :: aws where
  "nothing_there =
     new_account\<lparr>
       list_targets_by_rule :=
         (\<lambda>rule. Inl (ClientError ''ResourceNotFoundException'' ''Rule does not exist'')),
       delete_function :=
         (\<lambda>function. Inl (ClientError ''ResourceNotFoundException'' ''Function not found'')),
       delete_role_policy :=
         (\<lambda>role policy. Inl (ClientError ''NoSuchEntity'' ''Role not found'')),
       delete_role := (\<lambda>role. Inl (ClientError ''NoSuchEntity'' ''Role not found'')),
       delete_trail := (\<lambda>trail. Inl (ClientError ''TrailNotFoundException'' ''Unknown trail'')),
       delete_bucket := (\<lambda>bucket. Inl (ClientError ''NoSuchBucket'' ''No such bucket''))\<rparr>"

section \<open>Properties\<close>

subsection \<open>Rules for the combinators\<close>

lemmas run_defs =
  ret_def raise_def emit_def invoke_def and_then_def except_ClientError_def
  except_Exception_def

lemma calls_append: "calls (l @ l') = calls l @ calls l'"
  by (induction l rule: calls.induct) simp_all

lemma run_fst_snd [simp]:
  "fst (ret a) = Inr a" "snd (ret a) = []"
  "fst (raise e) = Inl e" "snd (raise e) = []"
  "fst (emit ev) = Inr ()" "snd (emit ev) = [ev]"
  "fst (invoke c r) = r" "snd (invoke c r) = [Call c]"
  by (simp_all add: run_defs)

lemma and_then_eq:
  "and_then m f =
     (case fst m of
        Inl e \<Rightarrow> (Inl e, snd m)
      | Inr a \<Rightarrow> (fst (f a), snd m @ snd (f a)))"
  by (cases m) (simp add: and_then_def split: sum.splits prod.splits)

lemma except_ClientError_eq:
  "except_ClientError m h =
     (case fst m of
        Inl (ClientError code text) \<Rightarrow> (fst (h code text), snd m @ snd (h code text))
      | Inl (Exception text) \<Rightarrow> (Inl (Exception text), snd m)
      | Inr a \<Rightarrow> (Inr a, snd m))"
  by (cases m) (simp add: except_ClientError_def split: sum.splits exn.splits prod.splits)

lemma except_Exception_eq:
  "except_Exception m h =
     (case fst m of
        Inl e \<Rightarrow> (fst (h e), snd m @ snd (h e))
      | Inr a \<Rightarrow> (Inr a, snd m))"
  by (cases m) (simp add: except_Exception_def split: sum.splits prod.splits)

lemma and_then_opt_eq:
  "and_then_opt m f =
     (case m of
        None \<Rightarrow> None
      | Some x \<Rightarrow>
          (case fst x of
             Inl e \<Rightarrow> Some (Inl e, snd x)
           | Inr a \<Rightarrow> map_option (\<lambda>y. (fst y, snd x @ snd y)) (f a)))"
  by (auto simp add: and_then_opt_def split: option.splits sum.splits prod.splits
        intro!: map_option_cong)

lemma and_then_opt_Some:
  "and_then_opt (Some m) f =
     (case fst m of
        Inl e \<Rightarrow> Some (Inl e, snd m)
      | Inr a \<Rightarrow> map_option (\<lambda>r. (fst r, snd m @ snd r)) (f a))"
  by (simp add: and_then_opt_eq)

lemma and_then_opt_None: "and_then_opt None f = None"
  by (simp add: and_then_opt_def)

lemma and_then_opt_SomeE:
  assumes "and_then_opt m f = Some (r, l)"
  obtains (raised) e where "m = Some (Inl e, l)" and "r = Inl e"
  | (returned) a l1 l2 where "m = Some (Inr a, l1)" and "f a = Some (r, l2)" and "l = l1 @ l2"
  using assms
  by (auto simp add: and_then_opt_def split: option.splits sum.splits prod.splits)

subsection \<open>The calls a run can issue\<close>

lemma calls_and_then:
  assumes "list_all P (calls (snd m))" and "\<And>a. list_all P (calls (snd (f a)))"
  shows "list_all P (calls (snd (and_then m f)))"
  using assms by (simp add: and_then_eq calls_append split: sum.splits)

lemma calls_except_ClientError:
  assumes "list_all P (calls (snd m))" and "\<And>code text. list_all P (calls (snd (h code text)))"
  shows "list_all P (calls (snd (except_ClientError m h)))"
  using assms by (simp add: except_ClientError_eq calls_append split: sum.splits exn.splits)

lemma calls_except_Exception:
  assumes "list_all P (calls (snd m))" and "\<And>e. list_all P (calls (snd (h e)))"
  shows "list_all P (calls (snd (except_Exception m h)))"
  using assms by (simp add: except_Exception_eq calls_append split: sum.splits)

lemma calls_for_each:
  assumes "\<And>x. list_all P (calls (snd (step x)))"
  shows "list_all P (calls (snd (for_each xs step)))"
  by (induction xs) (simp_all add: assms calls_and_then)

lemma issues_only_Some [simp]: "issues_only P (Some m) = list_all P (calls (snd m))"
  by (simp add: issues_only_def)

lemma issues_only_None [simp]: "issues_only P None"
  by (simp add: issues_only_def)

lemma issues_only_and_then_opt:
  assumes "issues_only P m" and "\<And>a. issues_only P (f a)"
  shows "issues_only P (and_then_opt m f)"
proof (cases m)
  case None
  then show ?thesis by (simp add: and_then_opt_eq)
next
  case (Some x)
  show ?thesis
  proof (cases "fst x")
    case (Inl e)
    with Some assms(1) show ?thesis by (simp add: and_then_opt_eq)
  next
    case (Inr a)
    with Some assms(1) assms(2)[of a] show ?thesis
      by (cases "f a") (simp_all add: and_then_opt_eq calls_append)
  qed
qed

lemma issues_only_handled:
  assumes "issues_only P m" and "\<And>e. list_all P (calls (snd (h e)))"
  shows "issues_only P (map_option (\<lambda>m. except_Exception m h) m)"
  using assms by (cases m) (simp_all add: calls_except_Exception)

lemma issues_only_list_all_users:
  assumes "\<And>t. P (ListUsers sid t)"
  shows "issues_only P (list_all_users answers sid tok users)"
proof (induction answers arbitrary: tok users)
  case Nil
  then show ?case by simp
next
  case (Cons answer answers)
  show ?case
  proof (cases answer)
    case (Inl e)
    then show ?thesis by (simp add: Let_def assms)
  next
    case (Inr response)
    show ?thesis
    proof (cases "token_truthy (NextToken response)")
      case False
      with Inr show ?thesis by (simp add: Let_def assms)
    next
      case True
      let ?rest = "list_all_users answers sid (NextToken response)
                 (users @ (case Users response of None \<Rightarrow> [] | Some us \<Rightarrow> us))"
      have "issues_only P ?rest" by (rule Cons.IH)
      with True Inr show ?thesis
        by (cases ?rest) (simp_all add: Let_def and_then_eq assms)
    qed
  qed
qed

lemma calls_create_s3_bucket:
  assumes "\<And>b. P (HeadBucket b)" "\<And>b l. P (CreateBucket b l)" "\<And>b p. P (PutBucketPolicy b p)"
  shows "list_all P (calls (snd (create_s3_bucket env b region)))"
  unfolding create_s3_bucket_def
  by (auto intro!: calls_and_then calls_except_ClientError simp add: assms)

lemma calls_setup_cloudtrail:
  assumes "P DescribeTrails" "\<And>n b p m v. P (CreateTrail n b p m v)"
    "\<And>n s. P (PutEventSelectors n s)" "\<And>n. P (StartLogging n)"
  shows "list_all P (calls (snd (setup_cloudtrail env b n)))"
  unfolding setup_cloudtrail_def Let_def
  by (auto intro!: calls_and_then calls_except_ClientError simp add: assms)

lemma calls_setup_completed: "calls (snd (setup_completed b eu f)) = []"
  by (simp add: setup_completed_def and_then_eq)

lemma calls_export_error_handler: "list_all P (calls (snd (export_error_handler e)))"
  by (cases e) (simp_all add: export_error_handler_def and_then_eq)

subsection \<open>Results of the setup steps\<close>

lemma export_handler_returns: "\<exists>ok l. except_Exception m export_error_handler = (Inr ok, l)"
  by (cases m) (auto simp add: export_error_handler_def run_defs split: sum.splits exn.splits)

lemma export_handler_result:
  "fst (except_Exception m export_error_handler) =
     (case fst m of Inl e \<Rightarrow> Inr False | Inr ok \<Rightarrow> Inr ok)"
  by (cases m) (auto simp add: export_error_handler_def run_defs split: sum.splits exn.splits)

lemma cli_export_returns:
  "cli_export_identity_center_users env b f = None
   \<or> (\<exists>ok l. cli_export_identity_center_users env b f = Some (Inr ok, l))"
  using export_handler_returns
  by (cases "cli_export_identity_center_users_try env b f")
    (auto simp add: cli_export_identity_center_users_def)

lemma lambda_export_returns:
  "lambda_export_identity_center_users env b f = None
   \<or> (\<exists>ok l. lambda_export_identity_center_users env b f = Some (Inr ok, l))"
  using export_handler_returns
  by (cases "lambda_export_identity_center_users_try env b f")
    (auto simp add: lambda_export_identity_center_users_def)

lemma setup_completed_returns: "fst (setup_completed b eu f) = Inr True"
  by (simp add: setup_completed_def and_then_eq)

lemma setup_completed_dest: "setup_completed b eu f = (r, l) \<Longrightarrow> r = Inr True"
  using setup_completed_returns[of b eu f] by simp

lemma setup_completed_ex: "\<exists>l. setup_completed b eu f = (Inr True, l)"
  using setup_completed_returns[of b eu f] by (cases "setup_completed b eu f") simp

lemma display_returns: "fst (display_q_developer_instructions b) = Inr True"
  by (simp add: display_q_developer_instructions_def and_then_eq)

lemma cli_run_setup_result:
  "cli_run_setup env b region eu f = Some (res, log) \<Longrightarrow> res = setup_result env b region"
  using cli_export_returns[of env b f]
  by (auto simp add: setup_result_def cli_run_setup_def and_then_opt_Some and_then_opt_None
        and_then_eq setup_completed_returns setup_completed_ex display_returns
      dest: setup_completed_dest split: sum.splits if_splits)

lemma cli_run_setup_without_export:
  "map_option fst (cli_run_setup env b region False f) = Some (setup_result env b region)"
  by (auto simp add: setup_result_def cli_run_setup_def and_then_opt_Some and_then_opt_None
        and_then_eq setup_completed_returns setup_completed_ex display_returns
      dest: setup_completed_dest split: sum.splits if_splits)

lemma lambda_run_setup_result:
  "lambda_run_setup env b region eu f = Some (res, log) \<Longrightarrow> res = setup_result env b region"
  using lambda_export_returns[of env b f]
  by (auto simp add: setup_result_def lambda_run_setup_def and_then_opt_Some and_then_opt_None
        and_then_eq setup_completed_returns setup_completed_ex
      dest: setup_completed_dest split: sum.splits if_splits)

lemma lambda_run_setup_without_export:
  "map_option fst (lambda_run_setup env b region False f) = Some (setup_result env b region)"
  by (auto simp add: setup_result_def lambda_run_setup_def and_then_opt_Some and_then_opt_None
        and_then_eq setup_completed_returns setup_completed_ex
      dest: setup_completed_dest split: sum.splits if_splits)

lemma cli_run_setup_export_failed:
  assumes "fst (create_s3_bucket env b region) = Inr True"
    and "fst (setup_cloudtrail env b default_trail_name) = Inr True"
    and "cli_export_identity_center_users env b f = Some (Inr False, l)"
  shows "map_option fst (cli_run_setup env b region True f) = Some (Inr True)"
  using assms
  by (auto simp add: cli_run_setup_def and_then_opt_Some and_then_opt_None and_then_eq
        setup_completed_returns setup_completed_ex display_returns
      dest: setup_completed_dest split: sum.splits if_splits)

lemma lambda_run_setup_export_failed:
  assumes "fst (create_s3_bucket env b region) = Inr True"
    and "fst (setup_cloudtrail env b default_trail_name) = Inr True"
    and "lambda_export_identity_center_users env b f = Some (Inr False, l)"
  shows "map_option fst (lambda_run_setup env b region True f) = Some (Inr True)"
  using assms
  by (auto simp add: lambda_run_setup_def and_then_opt_Some and_then_opt_None and_then_eq
        setup_completed_returns setup_completed_ex display_returns
      dest: setup_completed_dest split: sum.splits if_splits)

lemma run_setup_bucket_failed:
  assumes "fst (create_s3_bucket env b region) = Inr False"
  shows "cli_run_setup env b region eu f = Some (Inr False, bucket_failure_log env b region)"
    and "lambda_run_setup env b region eu f = Some (Inr False, bucket_failure_log env b region)"
  using assms
  by (simp_all add: cli_run_setup_def lambda_run_setup_def and_then_opt_Some and_then_eq
        bucket_failure_log_def)

lemma create_s3_bucket_no_input: "Input \<notin> set (snd (create_s3_bucket env b region))"
  by (auto simp add: create_s3_bucket_def run_defs split: sum.splits exn.splits prod.splits)

subsection \<open>Setup: a failed bucket step aborts, a failed export does not\<close>

text \<open>
  Claim C5. In both setup modules, when \<open>create_s3_bucket\<close> returns \<open>False\<close>,
  \<open>run_setup\<close> returns \<open>False\<close> and its log is the opening line, the log of the bucket
  step and the line that announces the abort: no pause on \<open>input()\<close>, and no provider call
  other than those of the bucket step, so neither the trail setup nor the user export is
  invoked. The user export does not change the result: whatever \<open>run_setup\<close> returns or
  raises with the export is what it returns or raises without it, and when the bucket and
  the trail succeed a failed export still leaves the result \<open>True\<close>.
\<close>

theorem run_setup_bucket_failure_aborts:
  "(fst (create_s3_bucket env b region) = Inr False \<longrightarrow>
      cli_run_setup env b region export_users f = Some (Inr False, bucket_failure_log env b region)
      \<and> lambda_run_setup env b region export_users f
          = Some (Inr False, bucket_failure_log env b region)
      \<and> Input \<notin> set (bucket_failure_log env b region)
      \<and> list_all bucket_step_call (calls (bucket_failure_log env b region)))
   \<and> (\<forall>res log. cli_run_setup env b region True f = Some (res, log) \<longrightarrow>
        map_option fst (cli_run_setup env b region False f) = Some res)
   \<and> (\<forall>res log. lambda_run_setup env b region True f = Some (res, log) \<longrightarrow>
        map_option fst (lambda_run_setup env b region False f) = Some res)
   \<and> (fst (create_s3_bucket env b region) = Inr True
        \<and> fst (setup_cloudtrail env b default_trail_name) = Inr True \<longrightarrow>
        (\<forall>l. cli_export_identity_center_users env b f = Some (Inr False, l) \<longrightarrow>
           map_option fst (cli_run_setup env b region True f) = Some (Inr True))
        \<and> (\<forall>l. lambda_export_identity_center_users env b f = Some (Inr False, l) \<longrightarrow>
           map_option fst (lambda_run_setup env b region True f) = Some (Inr True)))"
proof (intro conjI impI allI)
  assume failed: "fst (create_s3_bucket env b region) = Inr False"
  show "cli_run_setup env b region export_users f
          = Some (Inr False, bucket_failure_log env b region)"
    and "lambda_run_setup env b region export_users f
          = Some (Inr False, bucket_failure_log env b region)"
    using failed by (rule run_setup_bucket_failed)+
  show "Input \<notin> set (bucket_failure_log env b region)"
    by (simp add: bucket_failure_log_def create_s3_bucket_no_input)
  show "list_all bucket_step_call (calls (bucket_failure_log env b region))"
    by (simp add: bucket_failure_log_def calls_append calls_create_s3_bucket)
next
  fix res log
  assume "cli_run_setup env b region True f = Some (res, log)"
  then show "map_option fst (cli_run_setup env b region False f) = Some res"
    using cli_run_setup_result[of env b region True f res log]
    by (simp add: cli_run_setup_without_export)
next
  fix res log
  assume "lambda_run_setup env b region True f = Some (res, log)"
  then show "map_option fst (lambda_run_setup env b region False f) = Some res"
    using lambda_run_setup_result[of env b region True f res log]
    by (simp add: lambda_run_setup_without_export)
next
  fix l
  assume "fst (create_s3_bucket env b region) = Inr True
            \<and> fst (setup_cloudtrail env b default_trail_name) = Inr True"
    and "cli_export_identity_center_users env b f = Some (Inr False, l)"
  then show "map_option fst (cli_run_setup env b region True f) = Some (Inr True)"
    by (simp add: cli_run_setup_export_failed)
next
  fix l
  assume "fst (create_s3_bucket env b region) = Inr True
            \<and> fst (setup_cloudtrail env b default_trail_name) = Inr True"
    and "lambda_export_identity_center_users env b f = Some (Inr False, l)"
  then show "map_option fst (lambda_run_setup env b region True f) = Some (Inr True)"
    by (simp add: lambda_run_setup_export_failed)
qed

theorem run_setup_bucket_failure_aborts_witness:
  "fst (create_s3_bucket bucket_forbidden ''my-bucket'' (JStr ''us-east-1'')) = Inr False
   \<and> cli_run_setup bucket_forbidden ''my-bucket'' (JStr ''us-east-1'') True ''users.csv''
       = Some (Inr False,
           [Print ''Starting Amazon Q Developer to 3P setup...'',
            Call (HeadBucket ''my-bucket''),
            Print ''Error creating S3 bucket: Forbidden'',
            Print ''Failed to create S3 bucket. Aborting setup.''])
   \<and> fst (create_s3_bucket no_directory ''my-bucket'' (JStr ''us-east-1'')) = Inr True
   \<and> fst (setup_cloudtrail no_directory ''my-bucket'' default_trail_name) = Inr True
   \<and> cli_export_identity_center_users no_directory ''my-bucket'' ''users.csv''
       = Some (Inr False,
           [Call ListInstances, Print ''No IAM Identity Center instances found''])
   \<and> map_option fst (cli_run_setup no_directory ''my-bucket'' (JStr ''us-east-1'') True ''users.csv'')
       = Some (Inr True)"
proof -
  have failed: "fst (create_s3_bucket bucket_forbidden ''my-bucket'' (JStr ''us-east-1'')) = Inr False"
    by (simp add: create_s3_bucket_def bucket_forbidden_def new_account_def run_defs)
  have log: "bucket_failure_log bucket_forbidden ''my-bucket'' (JStr ''us-east-1'') =
      [Print ''Starting Amazon Q Developer to 3P setup...'',
       Call (HeadBucket ''my-bucket''),
       Print ''Error creating S3 bucket: Forbidden'',
       Print ''Failed to create S3 bucket. Aborting setup.'']"
    by (simp add: bucket_failure_log_def create_s3_bucket_def bucket_forbidden_def
          new_account_def run_defs)
  have created: "fst (create_s3_bucket no_directory ''my-bucket'' (JStr ''us-east-1'')) = Inr True"
    by (simp add: create_s3_bucket_def no_directory_def new_account_def run_defs)
  have trail: "fst (setup_cloudtrail no_directory ''my-bucket'' default_trail_name) = Inr True"
    by (simp add: setup_cloudtrail_def no_directory_def new_account_def run_defs)
  have export: "cli_export_identity_center_users no_directory ''my-bucket'' ''users.csv''
       = Some (Inr False,
           [Call ListInstances, Print ''No IAM Identity Center instances found''])"
    by (simp add: cli_export_identity_center_users_def cli_export_identity_center_users_try_def
          and_then_opt_def no_directory_def new_account_def run_defs)
  show ?thesis
    using failed log created trail export
      run_setup_bucket_failure_aborts[of bucket_forbidden "''my-bucket''" "JStr ''us-east-1''" True
        "''users.csv''"]
      run_setup_bucket_failure_aborts[of no_directory "''my-bucket''" "JStr ''us-east-1''" True
        "''users.csv''"]
    by simp
qed

subsection \<open>The calls of the trail setup\<close>

lemma setup_cloudtrail_calls_eq:
  assumes "describe_trails env = Inr trails"
    and "trail_exists =
           list_ex (\<lambda>trail. trail_Name trail = Some trail_name)
             (case trailList trails of None \<Rightarrow> [] | Some ts \<Rightarrow> ts)"
  shows "calls (snd (setup_cloudtrail env b trail_name)) =
     DescribeTrails
       # (if trail_exists then [] else [CreateTrail trail_name b ''cloudtrail'' True True])
       @ (if trail_exists \<or> create_trail env trail_name b = Inr () then
            PutEventSelectors trail_name advanced_event_selectors
              # (if put_event_selectors env trail_name advanced_event_selectors = Inr ()
                 then [StartLogging trail_name] else [])
          else [])"
  using assms
  by (auto simp add: setup_cloudtrail_def run_defs Let_def
        split: sum.splits exn.splits prod.splits)

lemma setup_cloudtrail_calls_failed:
  assumes "describe_trails env = Inl e"
  shows "calls (snd (setup_cloudtrail env b trail_name)) = [DescribeTrails]"
  using assms
  by (auto simp add: setup_cloudtrail_def run_defs Let_def
        split: sum.splits exn.splits prod.splits)

subsection \<open>Bucket creation when the bucket is absent\<close>

text \<open>
  The bucket is absent and the creation call is refused: \<open>create_s3_bucket\<close> returns
  \<open>False\<close> and the policy is not applied.
\<close>

theorem create_s3_bucket_absent_counterexample:
  "head_bucket creation_denied ''my-bucket'' = Inl (ClientError ''404'' ''Not Found'')
   \<and> create_s3_bucket creation_denied ''my-bucket'' (JStr ''us-east-1'')
       = (Inr False,
          [Call (HeadBucket ''my-bucket''), Call (CreateBucket ''my-bucket'' None),
           Print ''Error creating S3 bucket: Access Denied''])"
  by (simp add: create_s3_bucket_def creation_denied_def new_account_def run_defs)

text \<open>
  Claim C6, amended. When the probe answers 404, the second call of \<open>create_s3_bucket\<close>
  is \<open>create_bucket\<close>, without a location constraint in \<open>us-east-1\<close> and with
  \<open>LocationConstraint\<close> equal to the region otherwise. When that call succeeds the policy
  is applied next, and when the policy call succeeds too the function returns \<open>True\<close>.
\<close>

theorem create_s3_bucket_absent:
  assumes "head_bucket env b = Inl (ClientError ''404'' text)"
    and "location = (if region = JStr ''us-east-1'' then None else Some region)"
  shows "take 2 (calls (snd (create_s3_bucket env b region)))
           = [HeadBucket b, CreateBucket b location]
   \<and> (create_bucket env b location = Inr () \<longrightarrow>
        calls (snd (create_s3_bucket env b region))
          = [HeadBucket b, CreateBucket b location, PutBucketPolicy b (bucket_policy b)])
   \<and> (create_bucket env b location = Inr ()
        \<and> put_bucket_policy env b (bucket_policy b) = Inr () \<longrightarrow>
        fst (create_s3_bucket env b region) = Inr True)"
  using assms
  by (auto simp add: create_s3_bucket_def run_defs split: sum.splits exn.splits prod.splits)

theorem create_s3_bucket_absent_witness:
  "head_bucket new_account ''my-bucket'' = Inl (ClientError ''404'' ''Not Found'')
   \<and> create_bucket new_account ''my-bucket'' (Some (JStr ''us-west-2'')) = Inr ()
   \<and> put_bucket_policy new_account ''my-bucket'' (bucket_policy ''my-bucket'') = Inr ()
   \<and> calls (snd (create_s3_bucket new_account ''my-bucket'' (JStr ''us-west-2'')))
       = [HeadBucket ''my-bucket'', CreateBucket ''my-bucket'' (Some (JStr ''us-west-2'')),
          PutBucketPolicy ''my-bucket'' (bucket_policy ''my-bucket'')]
   \<and> fst (create_s3_bucket new_account ''my-bucket'' (JStr ''us-west-2'')) = Inr True"
  using create_s3_bucket_absent[of new_account "''my-bucket''" "''Not Found''"
      "Some (JStr ''us-west-2'')" "JStr ''us-west-2''"]
  by (simp add: new_account_def)

subsection \<open>Trail setup\<close>

text \<open>
  The trail exists and the event selectors are refused: \<open>setup_cloudtrail\<close> returns
  \<open>False\<close> and \<open>start_logging\<close> is never invoked.
\<close>

theorem setup_cloudtrail_counterexample:
  "describe_trails selectors_refused
     = Inr \<lparr>trailList = Some [\<lparr>trail_Name = Some default_trail_name\<rparr>]\<rparr>
   \<and> setup_cloudtrail selectors_refused ''my-bucket'' default_trail_name
       = (Inr False,
          [Call DescribeTrails,
           Print ''CloudTrail trail QDeveloper3PTrail already exists'',
           Call (PutEventSelectors default_trail_name advanced_event_selectors),
           Print ''Error setting up CloudTrail: Invalid''])
   \<and> StartLogging default_trail_name
       \<notin> set (calls (snd (setup_cloudtrail selectors_refused ''my-bucket'' default_trail_name)))"
  by (simp add: setup_cloudtrail_def selectors_refused_def new_account_def run_defs
        default_trail_name_def)

text \<open>
  Claim C7, amended. When \<open>describe_trails\<close> answers: if no listed trail has the name,
  \<open>create_trail\<close> is called exactly once, with the bucket, the prefix \<open>cloudtrail\<close>,
  multi-region and log-file validation enabled; if one has, \<open>create_trail\<close> is not called.
  In both cases the three advanced event selectors are applied unless \<open>create_trail\<close> was
  called and failed, and \<open>start_logging\<close> is invoked when the selectors call succeeded.
  Each selector matches \<open>eventCategory = Data\<close> and one resource type: CodeWhisperer
  Profile, Q Developer Integration, CodeWhisperer Customization.
\<close>

theorem setup_cloudtrail_calls:
  assumes "describe_trails env = Inr trails"
    and "trail_exists =
           list_ex (\<lambda>trail. trail_Name trail = Some trail_name)
             (case trailList trails of None \<Rightarrow> [] | Some ts \<Rightarrow> ts)"
    and "cs = calls (snd (setup_cloudtrail env b trail_name))"
  shows "filter is_CreateTrail cs
           = (if trail_exists then [] else [CreateTrail trail_name b ''cloudtrail'' True True])
   \<and> (trail_exists \<or> create_trail env trail_name b = Inr () \<longrightarrow>
        PutEventSelectors trail_name advanced_event_selectors \<in> set cs)
   \<and> ((trail_exists \<or> create_trail env trail_name b = Inr ())
        \<and> put_event_selectors env trail_name advanced_event_selectors = Inr () \<longrightarrow>
        StartLogging trail_name \<in> set cs)
   \<and> map FieldSelectors advanced_event_selectors =
       [[(''eventCategory'', [''Data'']),
         (''resources.type'', [''AWS::CodeWhisperer::Profile''])],
        [(''eventCategory'', [''Data'']),
         (''resources.type'', [''AWS::QDeveloper::Integration''])],
        [(''eventCategory'', [''Data'']),
         (''resources.type'', [''AWS::CodeWhisperer::Customization''])]]"
proof -
  have cs: "cs = DescribeTrails
       # (if trail_exists then [] else [CreateTrail trail_name b ''cloudtrail'' True True])
       @ (if trail_exists \<or> create_trail env trail_name b = Inr () then
            PutEventSelectors trail_name advanced_event_selectors
              # (if put_event_selectors env trail_name advanced_event_selectors = Inr ()
                 then [StartLogging trail_name] else [])
          else [])"
    unfolding assms(3) using assms(1,2) by (rule setup_cloudtrail_calls_eq)
  have selectors: "map FieldSelectors advanced_event_selectors =
       [[(''eventCategory'', [''Data'']),
         (''resources.type'', [''AWS::CodeWhisperer::Profile''])],
        [(''eventCategory'', [''Data'']),
         (''resources.type'', [''AWS::QDeveloper::Integration''])],
        [(''eventCategory'', [''Data'']),
         (''resources.type'', [''AWS::CodeWhisperer::Customization''])]]"
    by (simp add: advanced_event_selectors_def)
  show ?thesis
    unfolding cs using selectors by simp
qed

theorem setup_cloudtrail_calls_witness:
  "describe_trails new_account = Inr \<lparr>trailList = Some []\<rparr>
   \<and> create_trail new_account default_trail_name ''my-bucket'' = Inr ()
   \<and> put_event_selectors new_account default_trail_name advanced_event_selectors = Inr ()
   \<and> filter is_CreateTrail (calls (snd (setup_cloudtrail new_account ''my-bucket'' default_trail_name)))
       = [CreateTrail default_trail_name ''my-bucket'' ''cloudtrail'' True True]
   \<and> PutEventSelectors default_trail_name advanced_event_selectors
       \<in> set (calls (snd (setup_cloudtrail new_account ''my-bucket'' default_trail_name)))
   \<and> StartLogging default_trail_name
       \<in> set (calls (snd (setup_cloudtrail new_account ''my-bucket'' default_trail_name)))"
  using setup_cloudtrail_calls[of new_account "\<lparr>trailList = Some []\<rparr>" False default_trail_name
      "calls (snd (setup_cloudtrail new_account ''my-bucket'' default_trail_name))" "''my-bucket''"]
  by (simp add: new_account_def)

subsection \<open>The export of the setup Lambda\<close>

lemma issues_only_if:
  assumes "c \<Longrightarrow> issues_only P x" and "\<not> c \<Longrightarrow> issues_only P y"
  shows "issues_only P (if c then x else y)"
  using assms by simp

lemma issues_only_and_then_opt_ret:
  assumes "issues_only P m"
  shows "issues_only P (and_then_opt m (\<lambda>r. Some (ret (g r))))"
  using assms by (intro issues_only_and_then_opt) simp_all

lemma issues_only_lambda_export_try:
  "issues_only (\<lambda>c. \<not> uploads c) (lambda_export_identity_center_users_try env b f)"
  unfolding lambda_export_identity_center_users_try_def
proof (rule issues_only_and_then_opt)
  show "issues_only (\<lambda>c. \<not> uploads c) (Some (invoke ListInstances (list_instances env)))"
    by simp
next
  fix instances :: list_instances_response
  let ?P = "\<lambda>c. \<not> uploads c"
  show "issues_only ?P
     (case Instances instances of
        None \<Rightarrow>
          Some (and_then (emit (Print ''No IAM Identity Center instances found''))
                  (\<lambda>_. ret False))
      | Some [] \<Rightarrow>
          Some (and_then (emit (Print ''No IAM Identity Center instances found''))
                  (\<lambda>_. ret False))
      | Some (inst # x) \<Rightarrow>
          and_then_opt
            (Some (emit (Print (''Found IAM Identity Center instance: '' @ InstanceArn inst))))
            (\<lambda>_. and_then_opt
                   (Some (emit (Print (''Identity Store ID: '' @ IdentityStoreId inst))))
                   (\<lambda>_. and_then_opt
                          (list_all_users (list_users env) (IdentityStoreId inst) None [])
                          (\<lambda>users.
                              let s3_key = ''users/'' @ f
                              in Some
                                  (and_then lambda_io_StringIO
                                    (\<lambda>csv_buffer.
                                        and_then
                                         (invoke (PutObject b s3_key (write_csv users))
                                           (put_object env b s3_key (write_csv users)))
                                         (\<lambda>_. and_then
                                                (emit
                                                  (Print
                                                    (''Exported '' @ str_nat (length users)
                                                     @ '' users to s3://'' @ b @ ''/''
                                                     @ s3_key)))
                                                (\<lambda>_. ret True))))))))"
  proof (cases "Instances instances")
    case None
    then show ?thesis by (simp add: and_then_eq)
  next
    case (Some insts)
    show ?thesis
    proof (cases insts)
      case Nil
      with Some show ?thesis by (simp add: and_then_eq)
    next
      case (Cons inst others)
      have "issues_only ?P
         (and_then_opt
            (Some (emit (Print (''Found IAM Identity Center instance: '' @ InstanceArn inst))))
            (\<lambda>_. and_then_opt
                   (Some (emit (Print (''Identity Store ID: '' @ IdentityStoreId inst))))
                   (\<lambda>_. and_then_opt
                          (list_all_users (list_users env) (IdentityStoreId inst) None [])
                          (\<lambda>users.
                              let s3_key = ''users/'' @ f
                              in Some
                                  (and_then lambda_io_StringIO
                                    (\<lambda>csv_buffer.
                                        and_then
                                         (invoke (PutObject b s3_key (write_csv users))
                                           (put_object env b s3_key (write_csv users)))
                                         (\<lambda>_. and_then
                                                (emit
                                                  (Print
                                                    (''Exported '' @ str_nat (length users)
                                                     @ '' users to s3://'' @ b @ ''/''
                                                     @ s3_key)))
                                                (\<lambda>_. ret True))))))))"
        by (intro issues_only_and_then_opt issues_only_list_all_users)
          (simp_all add: Let_def lambda_io_StringIO_def and_then_eq)
      with Some Cons show ?thesis by simp
    qed
  qed
qed

lemma issues_only_lambda_export:
  "issues_only (\<lambda>c. \<not> uploads c) (lambda_export_identity_center_users env b f)"
  unfolding lambda_export_identity_center_users_def
  by (intro issues_only_handled issues_only_lambda_export_try calls_export_error_handler)

lemma issues_only_lambda_run_setup:
  "issues_only (\<lambda>c. \<not> uploads c) (lambda_run_setup env b region eu f)"
proof -
  let ?P = "\<lambda>c. \<not> uploads c"
  have trail: "list_all ?P (calls (snd (setup_cloudtrail env b default_trail_name)))"
    by (rule calls_setup_cloudtrail) simp_all
  have bucket: "list_all ?P (calls (snd (create_s3_bucket env b region)))"
    by (rule calls_create_s3_bucket) simp_all
  show ?thesis
    unfolding lambda_run_setup_def
    by (intro issues_only_and_then_opt issues_only_if)
      (simp_all add: bucket trail and_then_eq issues_only_lambda_export calls_setup_completed)
qed

lemma issues_only_setup_component:
  "issues_only (\<lambda>c. \<not> uploads c) (setup_component env bn rg eu outf)"
proof (cases "\<exists>b r f. bn = JStr b \<and> py_str rg = Some r \<and> py_str outf = Some f")
  case True
  then obtain b r f where "bn = JStr b" "py_str rg = Some r" "py_str outf = Some f" by blast
  then show ?thesis
    unfolding setup_component_def QDeveloper3PSetup_init_def
    by (simp, intro issues_only_and_then_opt issues_only_lambda_run_setup)
      (simp add: and_then_eq split: sum.splits)
next
  case False
  then have "setup_component env bn rg eu outf = None"
    unfolding setup_component_def by (auto split: json.splits option.splits)
  then show ?thesis by simp
qed

lemma issues_only_setup_lambda_handler:
  "issues_only (\<lambda>c. \<not> uploads c) (setup_lambda_handler env event)"
proof (cases "truthy (event_get event ''bucket_name'' JNull)")
  case False
  then show ?thesis by (simp add: setup_lambda_handler_def Let_def)
next
  case True
  then show ?thesis
    by (simp add: setup_lambda_handler_def Let_def issues_only_and_then_opt_ret
          issues_only_setup_component)
qed

lemma lambda_export_name_error:
  assumes "list_instances env = Inr resp" and "Instances resp = Some (inst # others)"
    and "list_all_users (list_users env) (IdentityStoreId inst) None [] = Some (Inr users, l)"
  shows "lambda_export_identity_center_users env b f =
     Some (Inr False,
       [Call ListInstances,
        Print (''Found IAM Identity Center instance: '' @ InstanceArn inst),
        Print (''Identity Store ID: '' @ IdentityStoreId inst)]
       @ l
       @ [Print (''Unexpected error exporting users: name '' @ [CHR 0x27] @ ''io''
            @ [CHR 0x27] @ '' is not defined'')])"
  using assms
  by (simp add: lambda_export_identity_center_users_def
        lambda_export_identity_center_users_try_def and_then_opt_Some and_then_eq
        lambda_io_StringIO_def Let_def export_error_handler_def except_Exception_def)

lemma lambda_export_try_not_True:
  "lambda_export_identity_center_users_try env b f = Some (r, log) \<Longrightarrow> r \<noteq> Inr True"
  by (auto simp add: lambda_export_identity_center_users_try_def and_then_eq
        lambda_io_StringIO_def Let_def invoke_def emit_def ret_def raise_def
      split: sum.splits option.splits list.splits elim!: and_then_opt_SomeE)

lemma lambda_export_returns_False:
  assumes "lambda_export_identity_center_users env b f = Some (r, log)"
  shows "r = Inr False"
proof -
  from assms obtain m where
    m: "lambda_export_identity_center_users_try env b f = Some m"
    and rl: "(r, log) = except_Exception m export_error_handler"
    by (auto simp add: lambda_export_identity_center_users_def)
  from m have "fst m \<noteq> Inr True"
    using lambda_export_try_not_True[of env b f "fst m" "snd m"] by simp
  moreover have "r = fst (except_Exception m export_error_handler)"
    using rl by (metis fst_conv)
  ultimately show ?thesis
    by (auto simp add: export_handler_result split: sum.splits)
qed

lemma lambda_run_setup_with_export:
  assumes "lambda_export_identity_center_users env b f \<noteq> None"
  shows "map_option fst (lambda_run_setup env b region True f) = Some (setup_result env b region)"
  using assms lambda_export_returns[of env b f]
  by (auto simp add: setup_result_def lambda_run_setup_def and_then_opt_Some and_then_opt_None
        and_then_eq setup_completed_returns setup_completed_ex
      dest: setup_completed_dest split: sum.splits if_splits)

text \<open>
  Claim C9. In the setup Lambda module, whenever an identity-center instance is found and
  the user list is retrieved, \<open>export_identity_center_users\<close> returns \<open>False\<close>: its log
  ends with the line of the generic handler for the \<open>NameError\<close> of \<open>io.StringIO\<close>, and
  holds no upload. More generally that function never returns \<open>True\<close>; no run of
  \<open>run_setup\<close> or of the handler issues a call that stores a CSV; and when the bucket and
  the trail steps succeed \<open>run_setup\<close> returns \<open>True\<close>, without the export always and with
  it as soon as the user listing ends.
\<close>

theorem setup_lambda_export_never_uploads:
  "(\<forall>resp inst others users l.
      list_instances env = Inr resp \<and> Instances resp = Some (inst # others)
      \<and> list_all_users (list_users env) (IdentityStoreId inst) None [] = Some (Inr users, l)
      \<longrightarrow> lambda_export_identity_center_users env b f =
            Some (Inr False,
              [Call ListInstances,
               Print (''Found IAM Identity Center instance: '' @ InstanceArn inst),
               Print (''Identity Store ID: '' @ IdentityStoreId inst)]
              @ l
              @ [Print (''Unexpected error exporting users: name '' @ [CHR 0x27] @ ''io''
                   @ [CHR 0x27] @ '' is not defined'')]))
   \<and> (\<forall>r log. lambda_export_identity_center_users env b f = Some (r, log) \<longrightarrow> r = Inr False)
   \<and> issues_only (\<lambda>c. \<not> uploads c) (lambda_run_setup env b region True f)
   \<and> issues_only (\<lambda>c. \<not> uploads c) (setup_lambda_handler env event)
   \<and> (fst (create_s3_bucket env b region) = Inr True
        \<and> fst (setup_cloudtrail env b default_trail_name) = Inr True \<longrightarrow>
        (\<forall>export_users res log.
           lambda_run_setup env b region export_users f = Some (res, log) \<longrightarrow> res = Inr True)
        \<and> map_option fst (lambda_run_setup env b region False f) = Some (Inr True)
        \<and> (lambda_export_identity_center_users env b f \<noteq> None \<longrightarrow>
             map_option fst (lambda_run_setup env b region True f) = Some (Inr True)))"
proof (intro conjI allI impI)
  fix resp inst others users l
  assume "list_instances env = Inr resp \<and> Instances resp = Some (inst # others)
      \<and> list_all_users (list_users env) (IdentityStoreId inst) None [] = Some (Inr users, l)"
  then show "lambda_export_identity_center_users env b f =
            Some (Inr False,
              [Call ListInstances,
               Print (''Found IAM Identity Center instance: '' @ InstanceArn inst),
               Print (''Identity Store ID: '' @ IdentityStoreId inst)]
              @ l
              @ [Print (''Unexpected error exporting users: name '' @ [CHR 0x27] @ ''io''
                   @ [CHR 0x27] @ '' is not defined'')])"
    using lambda_export_name_error by blast
next
  fix r log
  assume "lambda_export_identity_center_users env b f = Some (r, log)"
  then show "r = Inr False" by (rule lambda_export_returns_False)
next
  show "issues_only (\<lambda>c. \<not> uploads c) (lambda_run_setup env b region True f)"
    by (rule issues_only_lambda_run_setup)
  show "issues_only (\<lambda>c. \<not> uploads c) (setup_lambda_handler env event)"
    by (rule issues_only_setup_lambda_handler)
next
  fix export_users res log
  assume ok: "fst (create_s3_bucket env b region) = Inr True
        \<and> fst (setup_cloudtrail env b default_trail_name) = Inr True"
    and run: "lambda_run_setup env b region export_users f = Some (res, log)"
  from lambda_run_setup_result[OF run] ok show "res = Inr True"
    by (simp add: setup_result_def)
next
  assume ok: "fst (create_s3_bucket env b region) = Inr True
        \<and> fst (setup_cloudtrail env b default_trail_name) = Inr True"
  then show "map_option fst (lambda_run_setup env b region False f) = Some (Inr True)"
    by (simp add: lambda_run_setup_without_export setup_result_def)
next
  assume ok: "fst (create_s3_bucket env b region) = Inr True
        \<and> fst (setup_cloudtrail env b default_trail_name) = Inr True"
    and "lambda_export_identity_center_users env b f \<noteq> None"
  then show "map_option fst (lambda_run_setup env b region True f) = Some (Inr True)"
    by (simp add: lambda_run_setup_with_export setup_result_def)
qed

lemma new_account_listing:
  "list_all_users (list_users new_account) (IdentityStoreId directory) None []
     = Some (Inr [user1, user2],
         [Call (ListUsers ''d-12345'' None), Call (ListUsers ''d-12345'' (Some ''token123''))])"
  by (simp add: new_account_def directory_def page1_def page2_def token_truthy_def Let_def
        run_defs)

theorem setup_lambda_export_never_uploads_witness:
  "list_instances new_account = Inr \<lparr>Instances = Some [directory]\<rparr>
   \<and> list_all_users (list_users new_account) (IdentityStoreId directory) None []
       = Some (Inr [user1, user2],
           [Call (ListUsers ''d-12345'' None),
            Call (ListUsers ''d-12345'' (Some ''token123''))])
   \<and> lambda_export_identity_center_users new_account ''my-bucket'' ''users.csv''
       = Some (Inr False,
           [Call ListInstances,
            Print (''Found IAM Identity Center instance: '' @ InstanceArn directory),
            Print (''Identity Store ID: '' @ IdentityStoreId directory),
            Call (ListUsers ''d-12345'' None),
            Call (ListUsers ''d-12345'' (Some ''token123'')),
            Print (''Unexpected error exporting users: name '' @ [CHR 0x27] @ ''io''
              @ [CHR 0x27] @ '' is not defined'')])
   \<and> fst (create_s3_bucket new_account ''my-bucket'' (JStr ''us-east-1'')) = Inr True
   \<and> fst (setup_cloudtrail new_account ''my-bucket'' default_trail_name) = Inr True
   \<and> map_option fst (lambda_run_setup new_account ''my-bucket'' (JStr ''us-east-1'') True ''users.csv'')
       = Some (Inr True)"
proof -
  have instances: "list_instances new_account = Inr \<lparr>Instances = Some [directory]\<rparr>"
    by (simp add: new_account_def)
  have found: "Instances \<lparr>Instances = Some [directory]\<rparr> = Some (directory # [])"
    by simp
  have created: "fst (create_s3_bucket new_account ''my-bucket'' (JStr ''us-east-1'')) = Inr True"
    by (simp add: create_s3_bucket_def new_account_def run_defs)
  have trail: "fst (setup_cloudtrail new_account ''my-bucket'' default_trail_name) = Inr True"
    by (simp add: setup_cloudtrail_def new_account_def run_defs)
  note claim = setup_lambda_export_never_uploads[where env = new_account
      and b = "''my-bucket''" and f = "''users.csv''" and region = "JStr ''us-east-1''"]
  from claim have export:
    "lambda_export_identity_center_users new_account ''my-bucket'' ''users.csv''
       = Some (Inr False,
           [Call ListInstances,
            Print (''Found IAM Identity Center instance: '' @ InstanceArn directory),
            Print (''Identity Store ID: '' @ IdentityStoreId directory)]
           @ [Call (ListUsers ''d-12345'' None),
              Call (ListUsers ''d-12345'' (Some ''token123''))]
           @ [Print (''Unexpected error exporting users: name '' @ [CHR 0x27] @ ''io''
                @ [CHR 0x27] @ '' is not defined'')])"
    using instances found new_account_listing by blast
  then have "lambda_export_identity_center_users new_account ''my-bucket'' ''users.csv'' \<noteq> None"
    by simp
  with claim created trail have
    "map_option fst (lambda_run_setup new_account ''my-bucket'' (JStr ''us-east-1'') True ''users.csv'')
       = Some (Inr True)"
    by blast
  with instances new_account_listing export created trail show ?thesis by simp
qed

subsection \<open>The handlers\<close>


lemma new_account_directory:
  "list_instances new_account = Inr \<lparr>Instances = Some [directory]\<rparr>"
  "put_object new_account bucket key content = Inr ()"
  "upload_file new_account content bucket key = Inr ()"
  by (simp_all add: new_account_def)










text \<open>
  Claim C10. A \<open>bucket_name\<close> that is present but falsy (the empty string, \<open>null\<close>,
  \<open>false\<close>, \<open>0\<close>, an empty list or object) is treated by both handlers as if it were
  absent: status 400 with the missing-parameter message and an empty log, so no
  provisioning or export call.
\<close>

theorem falsy_bucket_name_rejected:
  assumes "event ''bucket_name'' = Some v" and "\<not> truthy v"
  shows "setup_lambda_handler env event = Some (Inr \<lparr>statusCode = 400,
                    body = JDict [(''message'',
                      JStr ''Missing required parameter: bucket_name'')]\<rparr>, [])
   \<and> extract_lambda_handler env event = Some (Inr \<lparr>statusCode = 400,
                    body = JDict [(''message'',
                      JStr ''Missing required parameter: bucket_name'')]\<rparr>, [])
   \<and> setup_lambda_handler env event = setup_lambda_handler env (event(''bucket_name'' := None))
   \<and> extract_lambda_handler env event
       = extract_lambda_handler env (event(''bucket_name'' := None))"
  using assms
  by (simp add: setup_lambda_handler_def extract_lambda_handler_def Let_def event_get_def
        missing_bucket_name_def ret_def)

theorem falsy_bucket_name_rejected_witness:
  "[''bucket_name'' \<mapsto> JStr '''', ''export_users'' \<mapsto> JBool True] ''bucket_name''
     = Some (JStr '''')
   \<and> \<not> truthy (JStr '''')
   \<and> setup_lambda_handler new_account
        [''bucket_name'' \<mapsto> JStr '''', ''export_users'' \<mapsto> JBool True]
       = Some (Inr \<lparr>statusCode = 400,
                    body = JDict [(''message'',
                      JStr ''Missing required parameter: bucket_name'')]\<rparr>, [])
   \<and> extract_lambda_handler new_account
        [''bucket_name'' \<mapsto> JStr '''', ''export_users'' \<mapsto> JBool True]
       = Some (Inr \<lparr>statusCode = 400,
                    body = JDict [(''message'',
                      JStr ''Missing required parameter: bucket_name'')]\<rparr>, [])
   \<and> \<not> truthy JNull
   \<and> setup_lambda_handler new_account [''bucket_name'' \<mapsto> JNull]
       = Some (Inr \<lparr>statusCode = 400,
                    body = JDict [(''message'',
                      JStr ''Missing required parameter: bucket_name'')]\<rparr>, [])"
  using falsy_bucket_name_rejected[of
      "[''bucket_name'' \<mapsto> JStr '''', ''export_users'' \<mapsto> JBool True]" "JStr ''''"
      new_account]
    falsy_bucket_name_rejected[of "[''bucket_name'' \<mapsto> JNull]" JNull new_account]
  by simp

subsection \<open>Teardown of resources that do not exist\<close>

lemma answers_codeE:
  assumes "answers_code code answer"
  obtains msg where "answer = Inl (ClientError code msg)"
  using assms by (auto simp add: answers_code_def split: sum.splits exn.splits)

lemma delete_eventbridge_rule_absent:
  assumes "answers_code ''ResourceNotFoundException'' (list_targets_by_rule env r)"
  shows "delete_eventbridge_rule env r =
     (Inr (), [Call (ListTargetsByRule r),
               Print (''EventBridge rule '' @ r @ '' not found (already deleted)'')])"
  using assms
  by (auto elim!: answers_codeE simp add: delete_eventbridge_rule_def run_defs)

lemma delete_lambda_function_absent:
  assumes "answers_code ''ResourceNotFoundException'' (delete_function env n)"
  shows "delete_lambda_function env n =
     (Inr (), [Call (DeleteFunction n),
               Print (''Lambda function '' @ n @ '' not found (already deleted)'')])"
  using assms
  by (auto elim!: answers_codeE simp add: delete_lambda_function_def run_defs)

lemma delete_iam_role_and_policy_absent:
  assumes "answers_code ''NoSuchEntity'' (delete_role_policy env r p)"
    and "answers_code ''NoSuchEntity'' (delete_role env r)"
  shows "delete_iam_role_and_policy env (r, p) =
     (Inr (), [Call (DeleteRolePolicy r p), Call (DeleteRole r),
               Print (''IAM role '' @ r @ '' not found (already deleted)'')])"
  using assms
  by (auto elim!: answers_codeE simp add: delete_iam_role_and_policy_def run_defs Let_def)

lemma delete_cloudtrail_absent:
  assumes "answers_code ''TrailNotFoundException'' (delete_trail env (cleanup_trail_name b))"
  shows "delete_cloudtrail env b =
     (Inr (), [Call (DeleteTrail (cleanup_trail_name b)),
               Print (''CloudTrail '' @ cleanup_trail_name b @ '' not found (already deleted)'')])"
  using assms
  by (auto elim!: answers_codeE simp add: delete_cloudtrail_def run_defs Let_def)

lemma empty_s3_bucket_absent:
  assumes "answers_code ''404'' (head_bucket env b)"
  shows "empty_s3_bucket env b =
     (Inr (), [Call (HeadBucket b),
               Print (''S3 bucket '' @ b @ '' not found (already deleted)'')])"
  using assms
  by (auto elim!: answers_codeE simp add: empty_s3_bucket_def run_defs)

lemma delete_s3_bucket_absent:
  assumes "answers_code ''NoSuchBucket'' (delete_bucket env b)"
  shows "delete_s3_bucket env b =
     (Inr (), [Call (DeleteBucket b),
               Print (''S3 bucket '' @ b @ '' not found (already deleted)'')])"
  using assms
  by (auto elim!: answers_codeE simp add: delete_s3_bucket_def run_defs)

lemma for_each_returns:
  assumes "\<And>x. x \<in> set xs \<Longrightarrow> step x = (Inr (), l x)"
  shows "for_each xs step = (Inr (), concat (map l xs))"
  using assms by (induction xs) (simp_all add: and_then_eq ret_def)

text \<open>
  Claim C4. Each deletion operation of the teardown, invoked when its target does not
  exist, returns normally and reports the absence with its informational line, never with
  an error line: the schedule rules and the Lambda functions when the provider answers
  \<open>ResourceNotFoundException\<close>, the roles with their inline policy when it answers
  \<open>NoSuchEntity\<close>, the trail on \<open>TrailNotFoundException\<close>, the emptying of the bucket
  when the probe answers \<open>404\<close>, and the deletion of the bucket on \<open>NoSuchBucket\<close>.
\<close>

theorem teardown_of_absent_resources:
  "((\<forall>r \<in> set rules_to_delete.
       answers_code ''ResourceNotFoundException'' (list_targets_by_rule env r)) \<longrightarrow>
     delete_eventbridge_rules env =
       (Inr (), concat (map (\<lambda>r.
          [Call (ListTargetsByRule r),
           Print (''EventBridge rule '' @ r @ '' not found (already deleted)'')])
          rules_to_delete)))
   \<and> ((\<forall>n \<in> set functions_to_delete.
       answers_code ''ResourceNotFoundException'' (delete_function env n)) \<longrightarrow>
     delete_lambda_functions env =
       (Inr (), concat (map (\<lambda>n.
          [Call (DeleteFunction n),
           Print (''Lambda function '' @ n @ '' not found (already deleted)'')])
          functions_to_delete)))
   \<and> ((\<forall>role \<in> set roles_to_delete.
       answers_code ''NoSuchEntity'' (delete_role_policy env (fst role) (snd role))
       \<and> answers_code ''NoSuchEntity'' (delete_role env (fst role))) \<longrightarrow>
     delete_iam_roles_and_policies env =
       (Inr (), concat (map (\<lambda>role.
          [Call (DeleteRolePolicy (fst role) (snd role)), Call (DeleteRole (fst role)),
           Print (''IAM role '' @ fst role @ '' not found (already deleted)'')])
          roles_to_delete)))
   \<and> (answers_code ''TrailNotFoundException'' (delete_trail env (cleanup_trail_name b)) \<longrightarrow>
     delete_cloudtrail env b =
       (Inr (), [Call (DeleteTrail (cleanup_trail_name b)),
                 Print (''CloudTrail '' @ cleanup_trail_name b
                   @ '' not found (already deleted)'')]))
   \<and> (answers_code ''404'' (head_bucket env b) \<longrightarrow>
     empty_s3_bucket env b =
       (Inr (), [Call (HeadBucket b),
                 Print (''S3 bucket '' @ b @ '' not found (already deleted)'')]))
   \<and> (answers_code ''NoSuchBucket'' (delete_bucket env b) \<longrightarrow>
     delete_s3_bucket env b =
       (Inr (), [Call (DeleteBucket b),
                 Print (''S3 bucket '' @ b @ '' not found (already deleted)'')]))"
proof (intro conjI impI)
  assume "\<forall>r \<in> set rules_to_delete.
       answers_code ''ResourceNotFoundException'' (list_targets_by_rule env r)"
  then show "delete_eventbridge_rules env =
       (Inr (), concat (map (\<lambda>r.
          [Call (ListTargetsByRule r),
           Print (''EventBridge rule '' @ r @ '' not found (already deleted)'')])
          rules_to_delete))"
    unfolding delete_eventbridge_rules_def
    by (intro for_each_returns delete_eventbridge_rule_absent) blast
next
  assume "\<forall>n \<in> set functions_to_delete.
       answers_code ''ResourceNotFoundException'' (delete_function env n)"
  then show "delete_lambda_functions env =
       (Inr (), concat (map (\<lambda>n.
          [Call (DeleteFunction n),
           Print (''Lambda function '' @ n @ '' not found (already deleted)'')])
          functions_to_delete))"
    unfolding delete_lambda_functions_def
    by (intro for_each_returns delete_lambda_function_absent) blast
next
  assume absent: "\<forall>role \<in> set roles_to_delete.
       answers_code ''NoSuchEntity'' (delete_role_policy env (fst role) (snd role))
       \<and> answers_code ''NoSuchEntity'' (delete_role env (fst role))"
  show "delete_iam_roles_and_policies env =
       (Inr (), concat (map (\<lambda>role.
          [Call (DeleteRolePolicy (fst role) (snd role)), Call (DeleteRole (fst role)),
           Print (''IAM role '' @ fst role @ '' not found (already deleted)'')])
          roles_to_delete))"
    unfolding delete_iam_roles_and_policies_def
  proof (rule for_each_returns)
    fix role assume "role \<in> set roles_to_delete"
    with absent delete_iam_role_and_policy_absent[of env "fst role" "snd role"]
    show "delete_iam_role_and_policy env role =
       (Inr (), [Call (DeleteRolePolicy (fst role) (snd role)), Call (DeleteRole (fst role)),
           Print (''IAM role '' @ fst role @ '' not found (already deleted)'')])"
      by simp
  qed
qed (rule delete_cloudtrail_absent empty_s3_bucket_absent delete_s3_bucket_absent, assumption)+

theorem teardown_of_absent_resources_witness:
  "delete_eventbridge_rules nothing_there =
     (Inr (),
      [Call (ListTargetsByRule ''QDeveloper3PSetupSchedule''),
       Print ''EventBridge rule QDeveloper3PSetupSchedule not found (already deleted)'',
       Call (ListTargetsByRule ''IAMIdentityCenterUserExtractSchedule''),
       Print (''EventBridge rule IAMIdentityCenterUserExtractSchedule''
         @ '' not found (already deleted)'')])
   \<and> delete_lambda_functions nothing_there =
     (Inr (),
      [Call (DeleteFunction ''QDeveloper3PSetup''),
       Print ''Lambda function QDeveloper3PSetup not found (already deleted)'',
       Call (DeleteFunction ''IAMIdentityCenterUserExtract''),
       Print ''Lambda function IAMIdentityCenterUserExtract not found (already deleted)''])
   \<and> delete_iam_roles_and_policies nothing_there =
     (Inr (),
      [Call (DeleteRolePolicy ''lambda-q-developer-role'' ''QDeveloper3PPermissions''),
       Call (DeleteRole ''lambda-q-developer-role''),
       Print ''IAM role lambda-q-developer-role not found (already deleted)'',
       Call (DeleteRolePolicy ''lambda-iam-identity-center-extract-role''
         ''IAMIdentityCenterExtractPermissions''),
       Call (DeleteRole ''lambda-iam-identity-center-extract-role''),
       Print ''IAM role lambda-iam-identity-center-extract-role not found (already deleted)''])
   \<and> delete_cloudtrail nothing_there ''my-bucket'' =
     (Inr (),
      [Call (DeleteTrail ''q-developer-3p-trail-my-bucket''),
       Print ''CloudTrail q-developer-3p-trail-my-bucket not found (already deleted)''])
   \<and> empty_s3_bucket nothing_there ''my-bucket'' =
     (Inr (),
      [Call (HeadBucket ''my-bucket''),
       Print ''S3 bucket my-bucket not found (already deleted)''])
   \<and> delete_s3_bucket nothing_there ''my-bucket'' =
     (Inr (),
      [Call (DeleteBucket ''my-bucket''),
       Print ''S3 bucket my-bucket not found (already deleted)''])"
  using teardown_of_absent_resources[of nothing_there "''my-bucket''"]
  by (simp add: nothing_there_def new_account_def answers_code_def rules_to_delete_def
        functions_to_delete_def roles_to_delete_def cleanup_trail_name_def)

subsection \<open>The pagination loop\<close>

lemma calls_map_Call [simp]: "calls (map Call cs) = cs"
  by (induction cs) simp_all

lemma calls_map_Call_comp [simp]: "calls (map (Call \<circ> g) xs) = map g xs"
  by (induction xs) simp_all

lemma list_all_users_pages:
  assumes "\<forall>p \<in> set pages. token_truthy (NextToken p)"
    and "\<not> token_truthy (NextToken last_page)"
  shows "list_all_users (map Inr (pages @ [last_page]) @ rest) sid tok users =
     Some (Inr (users @ concat (map page_users (pages @ [last_page]))),
           map Call (ListUsers sid (if token_truthy tok then tok else None)
                       # map (\<lambda>p. ListUsers sid (NextToken p)) pages))"
  using assms(1)
proof (induction pages arbitrary: tok users)
  case Nil
  with assms(2) show ?case by (simp add: Let_def page_users_def invoke_def)
next
  case (Cons p pages)
  then have truthy: "token_truthy (NextToken p)"
    and rest: "\<forall>p \<in> set pages. token_truthy (NextToken p)"
    by simp_all
  from Cons.IH[OF rest, of "NextToken p" "users @ page_users p"] truthy
  show ?case by (simp add: Let_def page_users_def and_then_eq)
qed

lemma primary_email_none:
  assumes "\<forall>e \<in> set (user_emails u). \<not> is_primary e"
  shows "primary_email u = []"
proof -
  from assms have "find is_primary (user_emails u) = None"
    by (simp add: find_None_iff)
  then show ?thesis by (simp add: primary_email_def user_emails_def)
qed

lemma find_first:
  assumes "\<forall>x \<in> set before. \<not> P x" and "P e"
  shows "find P (before @ e # after) = Some e"
  using assms by (induction before) simp_all

lemma primary_email_first:
  assumes "user_emails u = before @ e # after" and "is_primary e"
    and "\<forall>x \<in> set before. \<not> is_primary x"
  shows "primary_email u = Value e"
proof -
  from assms have "find is_primary (user_emails u) = Some e"
    by (simp add: find_first)
  then show ?thesis by (simp add: primary_email_def user_emails_def)
qed


subsection \<open>The directory export\<close>

lemma extract_users_calls:
  assumes "list_instances env = Inr resp" and "Instances resp = Some (inst # others)"
    and "list_all_users (list_users env) (IdentityStoreId inst) None [] = Some (Inr users, l)"
  shows "\<exists>r log. extract_users env b f = Some (r, log)
     \<and> calls log = ListInstances # calls l @ [PutObject b (''users/'' @ f) (write_csv users)]
     \<and> (put_object env b (''users/'' @ f) (write_csv users) = Inr () \<longrightarrow>
          r = Inr \<lparr>success = True,
                   message = ''Successfully exported '' @ str_nat (length users)
                     @ '' users to S3'',
                   user_count = Some (length users)\<rparr>)"
proof (cases "put_object env b (''users/'' @ f) (write_csv users)")
  case (Inl e)
  with assms show ?thesis
    by (cases e)
      (simp_all add: extract_users_def extract_users_try_def and_then_opt_Some and_then_eq
         Let_def except_Exception_eq calls_append)
next
  case (Inr u)
  with assms show ?thesis
    by (simp add: extract_users_def extract_users_try_def and_then_opt_Some and_then_eq
         Let_def except_Exception_eq calls_append)
qed

lemma cli_export_calls:
  assumes "list_instances env = Inr resp" and "Instances resp = Some (inst # others)"
    and "list_all_users (list_users env) (IdentityStoreId inst) None [] = Some (Inr users, l)"
  shows "\<exists>r log. cli_export_identity_center_users env b f = Some (r, log)
     \<and> calls log = ListInstances # calls l @ [UploadFile (write_csv users) b (''users/'' @ f)]
     \<and> (upload_file env (write_csv users) b (''users/'' @ f) = Inr () \<longrightarrow> r = Inr True)"
proof (cases "upload_file env (write_csv users) b (''users/'' @ f)")
  case (Inl e)
  with assms show ?thesis
    by (cases e)
      (simp_all add: cli_export_identity_center_users_def
         cli_export_identity_center_users_try_def and_then_opt_Some and_then_eq
         Let_def except_Exception_eq except_ClientError_eq export_error_handler_def calls_append)
next
  case (Inr u)
  with assms show ?thesis
    by (simp add: cli_export_identity_center_users_def
         cli_export_identity_center_users_try_def and_then_opt_Some and_then_eq
         Let_def except_Exception_eq except_ClientError_eq calls_append)
qed

text \<open>
  Claim C1. An identity-center instance is found and \<open>list_users\<close> answers with a
  sequence of pages of which the last is the first without a continuation token (absent
  or empty). Then the exporter, in \<open>extract_users\<close> of the export Lambda and in
  \<open>export_identity_center_users\<close> of the setup script, calls \<open>list_users\<close> once per
  page, first without a token and then with the token of the page before, and stores a CSV
  whose first row is the header \<open>UserId, Username, Email, GivenName, FamilyName\<close> and
  whose other rows are one per user of all the pages, in order: the number of rows is one
  more than the sum of the users over the pages. Each row has these five columns in this
  order, a missing value as the empty string; the e-mail column is the value of the first
  address marked primary, and the empty string when no address is marked primary.
\<close>

theorem directory_export_follows_tokens:
  assumes "list_instances env = Inr resp" and "Instances resp = Some (inst # others)"
    and "sid = IdentityStoreId inst"
    and "list_users env = map Inr (pages @ [last_page]) @ rest"
    and "\<forall>p \<in> set pages. token_truthy (NextToken p)"
    and "\<not> token_truthy (NextToken last_page)"
    and "users = concat (map page_users (pages @ [last_page]))"
    and "content =
           [''UserId'', ''Username'', ''Email'', ''GivenName'', ''FamilyName'']
             # map user_row users"
  shows "(\<exists>r log. extract_users env b f = Some (r, log)
       \<and> calls log =
           ListInstances # ListUsers sid None # map (\<lambda>p. ListUsers sid (NextToken p)) pages
             @ [PutObject b (''users/'' @ f) content]
       \<and> (put_object env b (''users/'' @ f) content = Inr () \<longrightarrow>
            r = Inr \<lparr>success = True,
                     message = ''Successfully exported '' @ str_nat (length users)
                       @ '' users to S3'',
                     user_count = Some (length users)\<rparr>))
   \<and> (\<exists>r log. cli_export_identity_center_users env b f = Some (r, log)
       \<and> calls log =
           ListInstances # ListUsers sid None # map (\<lambda>p. ListUsers sid (NextToken p)) pages
             @ [UploadFile content b (''users/'' @ f)]
       \<and> (upload_file env content b (''users/'' @ f) = Inr () \<longrightarrow> r = Inr True))
   \<and> length content = 1 + (\<Sum>p \<leftarrow> pages @ [last_page]. length (page_users p))
   \<and> (\<forall>u. user_row u =
         [case UserId u of None \<Rightarrow> [] | Some s \<Rightarrow> s,
          case UserName u of None \<Rightarrow> [] | Some s \<Rightarrow> s,
          primary_email u,
          case user_Name u of None \<Rightarrow> []
          | Some n \<Rightarrow> (case GivenName n of None \<Rightarrow> [] | Some s \<Rightarrow> s),
          case user_Name u of None \<Rightarrow> []
          | Some n \<Rightarrow> (case FamilyName n of None \<Rightarrow> [] | Some s \<Rightarrow> s)])
   \<and> (\<forall>u. (\<forall>e \<in> set (user_emails u). \<not> is_primary e) \<longrightarrow> primary_email u = [])
   \<and> (\<forall>u before e after.
         user_emails u = before @ e # after \<and> is_primary e
         \<and> (\<forall>x \<in> set before. \<not> is_primary x) \<longrightarrow> primary_email u = Value e)"
proof -
  have listing: "list_all_users (list_users env) (IdentityStoreId inst) None [] =
     Some (Inr users,
           map Call (ListUsers sid None # map (\<lambda>p. ListUsers sid (NextToken p)) pages))"
    using list_all_users_pages[OF assms(5) assms(6), of rest "IdentityStoreId inst" None "[]"]
    by (simp add: assms(3) assms(4) assms(7) token_truthy_def)
  have content: "content = write_csv users"
    by (simp add: assms(8) write_csv_def fieldnames_def)
  have extractor: "\<exists>r log. extract_users env b f = Some (r, log)
       \<and> calls log =
           ListInstances # ListUsers sid None # map (\<lambda>p. ListUsers sid (NextToken p)) pages
             @ [PutObject b (''users/'' @ f) content]
       \<and> (put_object env b (''users/'' @ f) content = Inr () \<longrightarrow>
            r = Inr \<lparr>success = True,
                     message = ''Successfully exported '' @ str_nat (length users)
                       @ '' users to S3'',
                     user_count = Some (length users)\<rparr>)"
    using extract_users_calls[OF assms(1) assms(2) listing, of b f]
    by (simp add: content)
  have cli: "\<exists>r log. cli_export_identity_center_users env b f = Some (r, log)
       \<and> calls log =
           ListInstances # ListUsers sid None # map (\<lambda>p. ListUsers sid (NextToken p)) pages
             @ [UploadFile content b (''users/'' @ f)]
       \<and> (upload_file env content b (''users/'' @ f) = Inr () \<longrightarrow> r = Inr True)"
    using cli_export_calls[OF assms(1) assms(2) listing, of b f]
    by (simp add: content)
  have rows: "length content = 1 + (\<Sum>p \<leftarrow> pages @ [last_page]. length (page_users p))"
    by (simp add: assms(7) assms(8) length_concat comp_def)
  have row: "\<forall>u. user_row u =
         [case UserId u of None \<Rightarrow> [] | Some s \<Rightarrow> s,
          case UserName u of None \<Rightarrow> [] | Some s \<Rightarrow> s,
          primary_email u,
          case user_Name u of None \<Rightarrow> []
          | Some n \<Rightarrow> (case GivenName n of None \<Rightarrow> [] | Some s \<Rightarrow> s),
          case user_Name u of None \<Rightarrow> []
          | Some n \<Rightarrow> (case FamilyName n of None \<Rightarrow> [] | Some s \<Rightarrow> s)]"
    by (simp add: user_row_def get_or_empty_def split: option.splits)
  from extractor cli rows row primary_email_none primary_email_first show ?thesis
    by blast
qed

theorem directory_export_follows_tokens_witness:
  "(\<exists>r log. extract_users new_account ''my-bucket'' ''users.csv'' = Some (r, log)
      \<and> calls log =
          [ListInstances, ListUsers ''d-12345'' None, ListUsers ''d-12345'' (Some ''token123''),
           PutObject ''my-bucket'' ''users/users.csv''
             [[''UserId'', ''Username'', ''Email'', ''GivenName'', ''FamilyName''],
              [''user-1'', ''testuser1'', ''test1@example.com'', ''Test'', ''User1''],
              [''user-2'', ''testuser2'', [], ''Test'', []]]]
      \<and> r = Inr \<lparr>success = True, message = ''Successfully exported 2 users to S3'',
                  user_count = Some 2\<rparr>)
   \<and> (\<exists>r log. cli_export_identity_center_users new_account ''my-bucket'' ''users.csv''
          = Some (r, log)
      \<and> calls log =
          [ListInstances, ListUsers ''d-12345'' None, ListUsers ''d-12345'' (Some ''token123''),
           UploadFile
             [[''UserId'', ''Username'', ''Email'', ''GivenName'', ''FamilyName''],
              [''user-1'', ''testuser1'', ''test1@example.com'', ''Test'', ''User1''],
              [''user-2'', ''testuser2'', [], ''Test'', []]]
             ''my-bucket'' ''users/users.csv'']
      \<and> r = Inr True)"
proof -
  have rows: "map user_row [user1, user2] =
      [[''user-1'', ''testuser1'', ''test1@example.com'', ''Test'', ''User1''],
       [''user-2'', ''testuser2'', [], ''Test'', []]]"
    by (simp add: user_row_def user1_def user2_def get_or_empty_def primary_email_def
          is_primary_def)
  have count: "str_nat (Suc (Suc 0)) = ''2''"
    by (simp add: str_nat.simps digit_def)
  note claim = directory_export_follows_tokens[where env = new_account
      and resp = "\<lparr>Instances = Some [directory]\<rparr>" and inst = directory and others = "[]"
      and sid = "''d-12345''" and pages = "[page1]" and last_page = page2 and rest = "[]"
      and users = "[user1, user2]"
      and content = "[[''UserId'', ''Username'', ''Email'', ''GivenName'', ''FamilyName''],
              [''user-1'', ''testuser1'', ''test1@example.com'', ''Test'', ''User1''],
              [''user-2'', ''testuser2'', [], ''Test'', []]]"
      and b = "''my-bucket''" and f = "''users.csv''"]
  have "list_instances new_account = Inr \<lparr>Instances = Some [directory]\<rparr>"
    and "Instances \<lparr>Instances = Some [directory]\<rparr> = Some [directory]"
    and "''d-12345'' = IdentityStoreId directory"
    and "list_users new_account = map Inr ([page1] @ [page2]) @ []"
    and "\<forall>p \<in> set [page1]. token_truthy (NextToken p)"
    and "\<not> token_truthy (NextToken page2)"
    and "[user1, user2] = concat (map page_users ([page1] @ [page2]))"
    and "[[''UserId'', ''Username'', ''Email'', ''GivenName'', ''FamilyName''],
              [''user-1'', ''testuser1'', ''test1@example.com'', ''Test'', ''User1''],
              [''user-2'', ''testuser2'', [], ''Test'', []]] =
           [''UserId'', ''Username'', ''Email'', ''GivenName'', ''FamilyName'']
             # map user_row [user1, user2]"
    by (simp_all add: new_account_def directory_def page1_def page2_def token_truthy_def
          page_users_def rows[simplified])
  note concrete = claim[OF this]
  have lambda_part:
    "\<exists>r log. extract_users new_account ''my-bucket'' ''users.csv'' = Some (r, log)
      \<and> calls log =
          [ListInstances, ListUsers ''d-12345'' None, ListUsers ''d-12345'' (Some ''token123''),
           PutObject ''my-bucket'' ''users/users.csv''
             [[''UserId'', ''Username'', ''Email'', ''GivenName'', ''FamilyName''],
              [''user-1'', ''testuser1'', ''test1@example.com'', ''Test'', ''User1''],
              [''user-2'', ''testuser2'', [], ''Test'', []]]]
      \<and> r = Inr \<lparr>success = True, message = ''Successfully exported 2 users to S3'',
                  user_count = Some 2\<rparr>"
    using concrete[THEN conjunct1]
    by (simp add: new_account_directory count page1_def numeral_2_eq_2)
  have cli_part:
    "\<exists>r log. cli_export_identity_center_users new_account ''my-bucket'' ''users.csv''
          = Some (r, log)
      \<and> calls log =
          [ListInstances, ListUsers ''d-12345'' None, ListUsers ''d-12345'' (Some ''token123''),
           UploadFile
             [[''UserId'', ''Username'', ''Email'', ''GivenName'', ''FamilyName''],
              [''user-1'', ''testuser1'', ''test1@example.com'', ''Test'', ''User1''],
              [''user-2'', ''testuser2'', [], ''Test'', []]]
             ''my-bucket'' ''users/users.csv'']
      \<and> r = Inr True"
    using concrete[THEN conjunct2, THEN conjunct1]
    by (simp add: new_account_directory page1_def)
  from lambda_part cli_part show ?thesis by (rule conjI)
qed

subsection \<open>Order of calls\<close>

lemma fst_and_then:
  "fst (and_then m f) = (case fst m of Inl e \<Rightarrow> Inl e | Inr a \<Rightarrow> fst (f a))"
  by (simp add: and_then_eq split: sum.splits)

lemma snd_and_then:
  "snd (and_then m f) = snd m @ (case fst m of Inl e \<Rightarrow> [] | Inr a \<Rightarrow> snd (f a))"
  by (simp add: and_then_eq split: sum.splits)

lemma snd_except_ClientError:
  "snd (except_ClientError m h) =
     snd m @ (case fst m of Inl (ClientError code msg) \<Rightarrow> snd (h code msg) | _ \<Rightarrow> [])"
  by (simp add: except_ClientError_eq split: sum.splits exn.splits)





lemma absent_if_excluded:
  assumes "list_all (\<lambda>c. c \<noteq> b) cs"
  shows "b \<notin> set cs"
  using assms by (auto simp add: list_all_iff)

subsection \<open>The calls of the teardown steps\<close>

lemma calls_delete_eventbridge_rule:
  assumes "P (ListTargetsByRule r)" and "\<And>ids. P (RemoveTargets r ids)" and "P (DeleteRule r)"
  shows "list_all P (calls (snd (delete_eventbridge_rule env r)))"
  unfolding delete_eventbridge_rule_def Let_def
  by (intro calls_except_ClientError calls_and_then)
    (simp_all add: assms calls_and_then split: option.splits list.splits)

lemma calls_delete_lambda_functions:
  assumes "\<And>n. P (DeleteFunction n)"
  shows "list_all P (calls (snd (delete_lambda_functions env)))"
  unfolding delete_lambda_functions_def delete_lambda_function_def
  by (intro calls_for_each calls_except_ClientError calls_and_then) (simp_all add: assms)

lemma calls_delete_iam_role_and_policy:
  assumes "P (DeleteRolePolicy (fst role) (snd role))" and "P (DeleteRole (fst role))"
  shows "list_all P (calls (snd (delete_iam_role_and_policy env role)))"
  unfolding delete_iam_role_and_policy_def Let_def
  by (intro calls_except_ClientError calls_and_then) (simp_all add: assms)


lemma calls_delete_current_objects:
  assumes "P (ListObjectsV2 b)" and "\<And>objects. P (DeleteObjects b objects)"
  shows "list_all P (calls (snd (delete_current_objects env b answers n)))"
proof (induction answers arbitrary: n)
  case Nil
  show ?case by simp
next
  case (Cons answer answers)
  show ?case
    unfolding delete_current_objects.simps Let_def
    by (intro calls_and_then Cons.IH)
      (simp_all add: assms calls_and_then split: option.splits)
qed

lemma calls_delete_object_versions:
  assumes "P (ListObjectVersions b)" and "\<And>objects. P (DeleteObjects b objects)"
  shows "list_all P (calls (snd (delete_object_versions env b answers n)))"
proof (induction answers arbitrary: n)
  case Nil
  show ?case by simp
next
  case (Cons answer answers)
  show ?case
    unfolding delete_object_versions.simps Let_def
    by (intro calls_except_ClientError calls_and_then Cons.IH)
      (simp_all add: assms calls_and_then)
qed

lemma calls_empty_s3_bucket:
  assumes "P (HeadBucket b)" and "P (ListObjectsV2 b)" and "P (ListObjectVersions b)"
    and "\<And>objects. P (DeleteObjects b objects)"
  shows "list_all P (calls (snd (empty_s3_bucket env b)))"
  unfolding empty_s3_bucket_def
  by (intro calls_except_ClientError calls_and_then calls_delete_current_objects
        calls_delete_object_versions)
    (simp_all add: assms)

lemma calls_delete_s3_bucket: "calls (snd (delete_s3_bucket env b)) = [DeleteBucket b]"
  by (simp add: delete_s3_bucket_def snd_except_ClientError snd_and_then calls_append
        split: sum.splits exn.splits)

lemma calls_cleanup_completed: "calls (snd cleanup_completed) = []"
  by (simp add: cleanup_completed_def snd_and_then)

subsection \<open>Order inside the steps\<close>





subsection \<open>Order in the whole teardown\<close>


lemma calls_run_cleanup:
  assumes "list_all P (calls (snd (delete_eventbridge_rules env)))"
    and "list_all P (calls (snd (delete_lambda_functions env)))"
    and "list_all P (calls (snd (delete_iam_roles_and_policies env)))"
    and "list_all P (calls (snd (delete_cloudtrail env bucket_name)))"
    and "list_all P (calls (snd (empty_s3_bucket env bucket_name)))"
    and "list_all P (calls (snd (delete_s3_bucket env bucket_name)))"
  shows "list_all P (calls (snd (run_cleanup env bucket_name region)))"
  unfolding run_cleanup_def
  by (intro calls_and_then) (simp_all add: assms calls_cleanup_completed)








subsection \<open>Emptying the bucket\<close>






lemma calls_invoke [simp]: "calls (snd (invoke c r)) = [c]"
  by (simp add: run_defs split: sum.splits)

lemma current_deletions [simp]:
  "list_all (\<lambda>obj. snd obj = None) (map (\<lambda>obj. (Key obj, None)) contents)"
  by (simp add: list_all_iff)

lemma version_deletions [simp]:
  "list_all (\<lambda>obj. \<exists>y. snd obj = Some y)
     (map (\<lambda>obj. (version_Key obj, Some (VersionId obj))) vs)"
  by (simp add: list_all_iff)




subsection \<open>The bucket is deleted last\<close>




subsection \<open>The calls of a teardown that returns\<close>


lemma and_then_completes:
  fixes m :: "unit run"
  assumes "fst (and_then m f) = Inr y"
  shows "fst m = Inr ()" and "fst (f ()) = Inr y"
  using assms by (simp_all add: fst_and_then split: sum.splits)










subsection \<open>The order of the teardown\<close>





subsection \<open>Trail names of setup and cleanup\<close>

lemma run_cleanup_keeps_setup_trail:
  "DeleteTrail default_trail_name \<notin> set (calls (snd (run_cleanup env bucket_name region)))"
proof (intro absent_if_excluded calls_run_cleanup)
  let ?P = "\<lambda>c. c \<noteq> DeleteTrail default_trail_name"
  show "list_all ?P (calls (snd (delete_eventbridge_rules env)))"
    unfolding delete_eventbridge_rules_def
    by (intro calls_for_each calls_delete_eventbridge_rule) simp_all
  show "list_all ?P (calls (snd (delete_lambda_functions env)))"
    by (intro calls_delete_lambda_functions) simp
  show "list_all ?P (calls (snd (delete_iam_roles_and_policies env)))"
    unfolding delete_iam_roles_and_policies_def
    by (intro calls_for_each calls_delete_iam_role_and_policy) simp_all
  show "list_all ?P (calls (snd (delete_cloudtrail env bucket_name)))"
    by (simp add: delete_cloudtrail_def Let_def snd_except_ClientError snd_and_then
          calls_append default_trail_name_def cleanup_trail_name_def
        split: sum.splits exn.splits)
  show "list_all ?P (calls (snd (empty_s3_bucket env bucket_name)))"
    by (intro calls_empty_s3_bucket) simp_all
  show "list_all ?P (calls (snd (delete_s3_bucket env bucket_name)))"
    by (simp add: calls_delete_s3_bucket)
qed

text \<open>
  Claim C2. For every bucket name, the trail name of the setup path, the constant
  \<open>QDeveloper3PTrail\<close>, differs from the trail name of the cleanup path,
  \<open>q-developer-3p-trail-\<close> followed by the bucket name. \<open>delete_cloudtrail\<close> issues
  exactly one call, \<open>delete_trail\<close> on the cleanup name; the only trail
  \<open>setup_cloudtrail\<close> can create is the one under the setup name; and no run of
  \<open>run_cleanup\<close>, for any bucket name, issues \<open>delete_trail\<close> on the setup name.
\<close>

theorem setup_and_cleanup_trail_names_differ:
  "default_trail_name \<noteq> cleanup_trail_name bucket_name
   \<and> calls (snd (delete_cloudtrail env bucket_name))
       = [DeleteTrail (cleanup_trail_name bucket_name)]
   \<and> filter is_CreateTrail (calls (snd (setup_cloudtrail env' bucket_name default_trail_name)))
       \<in> {[], [CreateTrail default_trail_name bucket_name ''cloudtrail'' True True]}
   \<and> DeleteTrail default_trail_name
       \<notin> set (calls (snd (run_cleanup env bucket_name' region)))"
proof (intro conjI)
  show "DeleteTrail default_trail_name
       \<notin> set (calls (snd (run_cleanup env bucket_name' region)))"
    by (rule run_cleanup_keeps_setup_trail)
  show "default_trail_name \<noteq> cleanup_trail_name bucket_name"
    by (simp add: default_trail_name_def cleanup_trail_name_def)
  show "calls (snd (delete_cloudtrail env bucket_name))
       = [DeleteTrail (cleanup_trail_name bucket_name)]"
    by (simp add: delete_cloudtrail_def Let_def except_ClientError_eq and_then_eq
          split: sum.splits exn.splits)
  show "filter is_CreateTrail (calls (snd (setup_cloudtrail env' bucket_name default_trail_name)))
       \<in> {[], [CreateTrail default_trail_name bucket_name ''cloudtrail'' True True]}"
  proof (cases "describe_trails env'")
    case (Inl e)
    then show ?thesis by (simp add: setup_cloudtrail_calls_failed)
  next
    case (Inr trails)
    then show ?thesis by (simp add: setup_cloudtrail_calls_eq[OF Inr refl])
  qed
qed

end
